theory Spec2Isabelle
  imports Main "HOL-Library.Word"
begin

section \<open>Python strings and values\<close>

text \<open>
  A Python \<open>str\<close> is a sequence of Unicode code points, so it is modelled as a list of
  natural numbers and not as a list of bytes: the user-facing messages of the plugin are
  Chinese text, and \<open>split\<close>, \<open>strip\<close> and \<open>isspace\<close> work on code points.
  ASCII literals of the source are written with \<open>asc\<close>.
\<close>

type_synonym ustring = "nat list"

definition asc :: "string \<Rightarrow> ustring" where
  "asc s = map of_char s"

text \<open>
  The code points for which \<open>str.isspace\<close>, \<open>str.strip()\<close> and \<open>str.split()\<close>
  of CPython treat a character as whitespace.
\<close>

definition is_space :: "nat \<Rightarrow> bool" where
  "is_space c \<longleftrightarrow>
     (9 \<le> c \<and> c \<le> 13) \<or> (28 \<le> c \<and> c \<le> 32) \<or> c = 133 \<or> c = 160 \<or> c = 5760 \<or>
     (8192 \<le> c \<and> c \<le> 8202) \<or> c = 8232 \<or> c = 8233 \<or> c = 8239 \<or> c = 8287 \<or> c = 12288"

definition strip :: "ustring \<Rightarrow> ustring" where
  "strip s = rev (dropWhile is_space (rev (dropWhile is_space s)))"

definition isspace :: "ustring \<Rightarrow> bool" where
  "isspace s \<longleftrightarrow> s \<noteq> [] \<and> list_all is_space s"

definition lstrip_chars :: "nat \<Rightarrow> ustring \<Rightarrow> ustring" where
  "lstrip_chars c s = dropWhile (\<lambda>x. x = c) s"

definition replace_char :: "nat \<Rightarrow> nat \<Rightarrow> ustring \<Rightarrow> ustring" where
  "replace_char a b s = map (\<lambda>x. if x = a then b else x) s"

text \<open>
  \<open>s.split(maxsplit=1)\<close>: leading whitespace is skipped, the first run of
  non-whitespace is the first part, and what follows the next run of whitespace, when
  anything does, is the second part with its trailing whitespace kept.
\<close>

definition split_max1 :: "ustring \<Rightarrow> ustring list" where
  "split_max1 s =
     (let s1 = dropWhile is_space s in
      if s1 = [] then []
      else
        let tok = takeWhile (\<lambda>c. \<not> is_space c) s1;
            rest = dropWhile is_space (dropWhile (\<lambda>c. \<not> is_space c) s1)
        in if rest = [] then [tok] else [tok, rest])"

text \<open>\<open>s.split()\<close> without a bound: all the whitespace-separated tokens of \<open>s\<close>.\<close>

function py_split :: "ustring \<Rightarrow> ustring list" where
  "py_split s =
     (let s1 = dropWhile is_space s in
      if s1 = [] then []
      else takeWhile (\<lambda>c. \<not> is_space c) s1 # py_split (dropWhile (\<lambda>c. \<not> is_space c) s1))"
  by pat_completeness auto
termination
proof (relation "measure length")
  show "wf (measure length)" by simp
next
  fix s s1 :: ustring
  assume s1: "s1 = dropWhile is_space s" and ne: "s1 \<noteq> []"
  from ne obtain c cs where c: "s1 = c # cs" by (cases s1) simp_all
  have "dropWhile is_space s \<noteq> []" using s1 ne by simp
  from hd_dropWhile [OF this] have "\<not> is_space (hd s1)"
    using s1 by simp
  then have "\<not> is_space c"
    using c by simp
  then have "length (dropWhile (\<lambda>c. \<not> is_space c) s1) \<le> length cs"
    using c by (simp add: length_dropWhile_le)
  moreover have "length s1 \<le> length s"
    using s1 by (simp add: length_dropWhile_le)
  ultimately show "(dropWhile (\<lambda>c. \<not> is_space c) s1, s) \<in> measure length"
    using c by simp
qed

declare py_split.simps [simp del]

text \<open>
  The values a decoded JSON document is made of. A Python \<open>float\<close> is an IEEE double,
  kept as its 64 bits; a \<open>dict\<close> with string keys is an association list.
\<close>

datatype pyval =
    PNone
  | PBool bool
  | PInt int
  | PFloat "64 word"
  | PStr ustring
  | PList "pyval list"
  | PDict "(ustring \<times> pyval) list"

type_synonym pydict = "(ustring \<times> pyval) list"

text \<open>Truth value of an object, as \<open>not x\<close> and \<open>if x\<close> test it.\<close>

fun truthy :: "pyval \<Rightarrow> bool" where
  "truthy PNone = False"
| "truthy (PBool b) = b"
| "truthy (PInt i) = (i \<noteq> 0)"
| "truthy (PFloat w) = (w \<noteq> 0 \<and> w \<noteq> 0x8000000000000000)"
| "truthy (PStr s) = (s \<noteq> [])"
| "truthy (PList xs) = (xs \<noteq> [])"
| "truthy (PDict kvs) = (kvs \<noteq> [])"

text \<open>\<open>x == -1\<close>: true of the integer and of the double \<open>-1.0\<close> only.\<close>

fun eq_minus_one :: "pyval \<Rightarrow> bool" where
  "eq_minus_one (PInt i) = (i = - 1)"
| "eq_minus_one (PFloat w) = (w = 0xBFF0000000000000)"
| "eq_minus_one _ = False"

fun is_list :: "pyval \<Rightarrow> bool" where
  "is_list (PList _) = True"
| "is_list _ = False"

fun is_dict :: "pyval \<Rightarrow> bool" where
  "is_dict (PDict _) = True"
| "is_dict _ = False"

text \<open>\<open>len(x)\<close>, which the program takes of a list only.\<close>

fun py_len :: "pyval \<Rightarrow> nat" where
  "py_len (PList xs) = length xs"
| "py_len (PDict kvs) = length kvs"
| "py_len (PStr s) = length s"
| "py_len _ = 0"

definition dict_get :: "pydict \<Rightarrow> ustring \<Rightarrow> pyval \<Rightarrow> pyval" where
  "dict_get d k dflt = (case map_of d k of Some v \<Rightarrow> v | None \<Rightarrow> dflt)"

definition dict_has :: "pydict \<Rightarrow> ustring \<Rightarrow> bool" where
  "dict_has d k \<longleftrightarrow> map_of d k \<noteq> None"

text \<open>The exceptions the program can meet; all of them derive from \<open>Exception\<close>.\<close>

datatype exn = Timeout | RequestException | JSONDecodeError | AttributeError | OtherException

text \<open>\<open>x.get(k, dflt)\<close>: only a \<open>dict\<close> has the method.\<close>

fun py_get :: "pyval \<Rightarrow> ustring \<Rightarrow> pyval \<Rightarrow> exn + pyval" where
  "py_get (PDict d) k dflt = Inr (dict_get d k dflt)"
| "py_get _ k dflt = Inl AttributeError"

text \<open>Decimal digits of a natural number and of an integer, as \<open>str\<close> prints them.\<close>

fun digits :: "nat \<Rightarrow> ustring" where
  "digits n = (if n < 10 then [48 + n] else digits (n div 10) @ [48 + n mod 10])"

declare digits.simps [simp del]

definition str_int :: "int \<Rightarrow> ustring" where
  "str_int i = (if i < 0 then 45 # digits (nat (- i)) else digits (nat i))"

text \<open>
  \<open>str(x)\<close>. The text of a \<open>float\<close>, a \<open>list\<close> or a \<open>dict\<close> is the interpreter's
  \<open>repr\<close>, which is taken as a parameter.
\<close>

fun py_str :: "(pyval \<Rightarrow> ustring) \<Rightarrow> pyval \<Rightarrow> ustring" where
  "py_str repr (PStr s) = s"
| "py_str repr PNone = asc ''None''"
| "py_str repr (PBool b) = (if b then asc ''True'' else asc ''False'')"
| "py_str repr (PInt i) = str_int i"
| "py_str repr v = repr v"


section \<open>The user-facing texts\<close>

text \<open>
  The literals of \<open>handle_heyao_query\<close>, as code points. \<open>msg_usage\<close> (line 206) asks for
  an order number and shows the usage; \<open>msg_empty\<close> (line 214) says the order number must
  not be empty; \<open>msg_default\<close> (line 236) is the generic "no order information found, or the
  API answered in a wrong format"; \<open>msg_send_problem\<close> (line 302) is "image generated, but
  a problem occurred when sending". The others are the fixed pieces of the f-strings.
\<close>

definition msg_usage :: ustring where
  "msg_usage = [35831, 25552, 20379, 35746, 21333, 21495, 12290, 29992, 27861, 65306,
     47, 104, 101, 121, 97, 111, 32, 60, 35746, 21333, 21495, 62]"

definition msg_empty :: ustring where
  "msg_empty = [35746, 21333, 21495, 19981, 33021, 20026, 31354, 12290, 29992, 27861, 65306,
     47, 104, 101, 121, 97, 111, 32, 60, 35746, 21333, 21495, 62]"

definition msg_searching :: "ustring \<Rightarrow> ustring" where
  "msg_searching order_id =
     [27491, 22312, 26597, 35810, 35746, 21333, 21495, 65306] @ order_id @ asc ''...''"

definition msg_fetch_failed :: "ustring \<Rightarrow> ustring" where
  "msg_fetch_failed order_id =
     [26597, 35810, 35746, 21333, 32] @ order_id @
     [32, 26102, 20986, 38169, 65292, 35831, 26816, 26597, 26085, 24535, 25110, 31245, 21518,
      20877, 35797, 12290]"

definition msg_default :: ustring where
  "msg_default = [26410, 25214, 21040, 35746, 21333, 20449, 24687, 25110, 65, 80, 73, 36820,
     22238, 26684, 24335, 19981, 27491, 30830, 12290]"

definition msg_not_found :: "ustring \<Rightarrow> ustring" where
  "msg_not_found order_id =
     [26410, 25214, 21040, 35746, 21333, 32] @ order_id @ [32, 30340, 20449, 24687, 12290]"

definition msg_api_error :: "ustring \<Rightarrow> ustring" where
  "msg_api_error err = [65, 80, 73, 38169, 35823, 58, 32] @ err"

definition order_suffix :: "ustring \<Rightarrow> ustring" where
  "order_suffix order_id = [40, 35746, 21333, 21495, 58, 32] @ order_id @ [41]"

definition msg_query_failed :: "ustring \<Rightarrow> ustring \<Rightarrow> ustring" where
  "msg_query_failed error_msg order_id =
     [26597, 35810, 22833, 36133, 65306] @ error_msg @ [32] @ order_suffix order_id"

definition msg_unparsed :: "ustring \<Rightarrow> ustring" where
  "msg_unparsed order_id =
     [26597, 35810, 25104, 21151, 65292, 20294, 26410, 33021, 35299, 26512, 35746, 21333, 35814,
      32454, 20449, 24687, 12290] @ order_suffix order_id"

definition msg_processing_error :: "ustring \<Rightarrow> ustring" where
  "msg_processing_error order_id =
     [22788, 29702, 65, 80, 73, 21709, 24212, 26102, 21457, 29983, 38169, 35823, 12290] @
     order_suffix order_id"

definition msg_send_problem :: ustring where
  "msg_send_problem = [29983, 25104, 22270, 29255, 25104, 21151, 65292, 20294, 21457, 36865,
     26102, 36935, 21040, 38382, 39064, 12290]"

definition msg_render_failed :: "ustring \<Rightarrow> ustring" where
  "msg_render_failed order_id =
     [25104, 21151, 33719, 21462, 35746, 21333, 20449, 24687, 65292, 20294, 22312, 29983, 25104,
      22270, 29255, 26102, 22833, 36133, 12290] @ order_suffix order_id"

section \<open>The API client\<close>

text \<open>
  What \<open>requests.post\<close> can do (lines 45 to 49): raise a timeout, raise another
  \<open>RequestException\<close>, raise something else, or give a response. Of a response the
  function reads the status code and the body decoded as JSON (\<open>None\<close> when the body is
  not JSON, where \<open>response.json()\<close> raises).
\<close>

datatype post_outcome =
    PostTimeout
  | PostRequestException
  | PostOtherException
  | Response int "pyval option"

text \<open>\<open>bool(response)\<close> is \<open>response.ok\<close>: false for the statuses 400 to 599.\<close>

definition response_truthy :: "int \<Rightarrow> bool" where
  "response_truthy status \<longleftrightarrow> \<not> (400 \<le> status \<and> status < 600)"

text \<open>The body of the \<open>try\<close> of \<open>fetch_wechat_info\<close>, lines 43 to 62.\<close>

definition fetch_body :: "post_outcome \<Rightarrow> exn + pyval" where
  "fetch_body out =
     (case out of
        PostTimeout \<Rightarrow> Inl Timeout
      | PostRequestException \<Rightarrow> Inl RequestException
      | PostOtherException \<Rightarrow> Inl OtherException
      | Response status body \<Rightarrow>
          if response_truthy status \<and> status = 200 then
            (case body of None \<Rightarrow> Inl JSONDecodeError | Some response_json \<Rightarrow> Inr response_json)
          else if response_truthy status then Inr PNone
          else Inr PNone)"

text \<open>
  \<open>fetch_wechat_info\<close> with its handlers, lines 64 to 77. The result is \<open>Inl\<close> for an
  exception that leaves the function and \<open>Inr\<close> for a returned value; the failure sentinel
  is Python's \<open>None\<close>.
\<close>

definition fetch_wechat_info :: "post_outcome \<Rightarrow> exn + pyval" where
  "fetch_wechat_info out =
     (case fetch_body out of
        Inl Timeout \<Rightarrow> Inr PNone
      | Inl RequestException \<Rightarrow> Inr PNone
      | Inl JSONDecodeError \<Rightarrow> Inr PNone
      | Inl _ \<Rightarrow> Inr PNone
      | Inr response_json \<Rightarrow> Inr response_json)"

section \<open>Extraction of the order details\<close>

text \<open>Lines 236 to 242: the text reported when there is no usable \<open>queryDataList\<close>.\<close>

definition error_message :: "(pyval \<Rightarrow> ustring) \<Rightarrow> ustring \<Rightarrow> pydict \<Rightarrow> ustring" where
  "error_message repr order_id_user api_data =
     (let error_msg = dict_get api_data (asc ''msg'') (PStr msg_default);
          error_msg =
            (if error_msg = PStr msg_default then
               (if eq_minus_one (dict_get api_data (asc ''code'') PNone)
                then PStr (msg_not_found order_id_user)
                else if dict_has api_data (asc ''error'')
                then PStr (msg_api_error (py_str repr (dict_get api_data (asc ''error'') PNone)))
                else error_msg)
             else error_msg)
      in py_str repr error_msg)"

text \<open>
  The body of the \<open>try\<close> at lines 230 to 254. \<open>Inl\<close> is a raised exception,
  \<open>Inr (Inl m)\<close> a text that is yielded before the handler returns, and
  \<open>Inr (Inr d)\<close> the \<open>order_details\<close> the handler goes on with.
\<close>

definition extract_body ::
  "(pyval \<Rightarrow> ustring) \<Rightarrow> ustring \<Rightarrow> pyval \<Rightarrow> exn + (ustring + pyval)" where
  "extract_body repr order_id_user api_data =
     (case py_get api_data (asc ''queryDataList'') PNone of
        Inl e \<Rightarrow> Inl e
      | Inr query_data_list \<Rightarrow>
          if \<not> truthy query_data_list \<or> \<not> is_list query_data_list \<or>
             py_len query_data_list = 0
          then (case api_data of
                  PDict d \<Rightarrow> Inr (Inl (msg_query_failed (error_message repr order_id_user d) order_id_user))
                | _ \<Rightarrow> Inl AttributeError)
          else
            (case query_data_list of
               PList (first # _) \<Rightarrow>
                 (case py_get first (asc ''content'') PNone of
                    Inl e \<Rightarrow> Inl e
                  | Inr order_details \<Rightarrow>
                      if \<not> truthy order_details \<or> \<not> is_dict order_details
                      then Inr (Inl (msg_unparsed order_id_user))
                      else Inr (Inr order_details))
             | _ \<Rightarrow> Inl OtherException))"

text \<open>The \<open>try\<close> with its handler, lines 256 to 261: any exception becomes one text.\<close>

definition extract_details ::
  "(pyval \<Rightarrow> ustring) \<Rightarrow> ustring \<Rightarrow> pyval \<Rightarrow> ustring + pyval" where
  "extract_details repr order_id_user api_data =
     (case extract_body repr order_id_user api_data of
        Inl e \<Rightarrow> Inl (msg_processing_error order_id_user)
      | Inr r \<Rightarrow> r)"


section \<open>Time\<close>

text \<open>
  \<open>time.strftime(format)\<close> formats the local time as a \<open>struct_time\<close>, whose
  smallest field is the second. The system clock reads more finely; \<open>usec\<close> is the
  microsecond within the second, which no field of \<open>struct_time\<close> carries.
\<close>

record struct_time =
  tm_year :: nat
  tm_mon :: nat
  tm_mday :: nat
  tm_hour :: nat
  tm_min :: nat
  tm_sec :: nat

record wallclock =
  localtime :: struct_time
  usec :: nat

definition zero_pad :: "nat \<Rightarrow> nat \<Rightarrow> ustring" where
  "zero_pad w n = replicate (w - length (digits n)) 48 @ digits n"

text \<open>
  The directives the program uses, as the C library's \<open>strftime\<close> expands them; a
  directive the C library does not know (\<open>%f\<close> belongs to \<open>datetime\<close>, not to
  \<open>time.strftime\<close>) is copied as it stands, which is what glibc does.
\<close>

definition directive :: "nat \<Rightarrow> struct_time \<Rightarrow> ustring" where
  "directive d t =
     (if d = 89 then zero_pad 4 (tm_year t)
      else if d = 109 then zero_pad 2 (tm_mon t)
      else if d = 100 then zero_pad 2 (tm_mday t)
      else if d = 72 then zero_pad 2 (tm_hour t)
      else if d = 77 then zero_pad 2 (tm_min t)
      else if d = 83 then zero_pad 2 (tm_sec t)
      else if d = 37 then [37]
      else [37, d])"

fun strftime :: "ustring \<Rightarrow> struct_time \<Rightarrow> ustring" where
  "strftime (p # d # fmt) t =
     (if p = 37 then directive d t @ strftime fmt t else p # strftime (d # fmt) t)"
| "strftime fmt t = fmt"

definition time_strftime :: "ustring \<Rightarrow> wallclock \<Rightarrow> ustring" where
  "time_strftime fmt now = strftime fmt (localtime now)"

section \<open>Files, images and the surroundings of one invocation\<close>

text \<open>
  An image is its size and the texts drawn on it, in drawing order. A file holds an
  image or something else (the font); the file system maps absolute paths to contents.
\<close>

datatype font = TrueType ustring nat | DefaultFont

record image =
  img_size :: "nat \<times> nat"
  img_texts :: "(ustring \<times> (nat \<times> nat) \<times> font) list"

datatype content = Png image | Blob

type_synonym files = "ustring \<rightharpoonup> content"

text \<open>
  What the libraries and the host do during one invocation, which the program cannot
  decide: the answer to the HTTP request, whether the directory can be made, whether the
  two font loaders, a drawing call, the saving and the deletion of a file raise, what
  happens at the handoff of the image, and the clock as read at lines 135 and 162.
\<close>

datatype handoff_outcome = Delivered | PackagingRaises | YieldRaises

record env =
  plugin_dir :: ustring
  py_repr :: "pyval \<Rightarrow> ustring"
  post :: "ustring \<Rightarrow> post_outcome"
  mkdir_ok :: bool
  truetype_ok :: bool
  load_default_ok :: bool
  draw_ok :: "ustring \<Rightarrow> bool"
  save_ok :: bool
  unlink_ok :: bool
  handoff :: handoff_outcome
  clock_stamp :: wallclock
  clock_name :: wallclock

definition resource_path :: "env \<Rightarrow> ustring \<Rightarrow> ustring" where
  "resource_path e relative_path = plugin_dir e @ asc ''/'' @ relative_path"

section \<open>The image renderer\<close>

text \<open>
  Lines 115 to 126 and 139 to 149: the font of one drawing call. \<open>None\<close> is the case
  where the default font cannot be loaded either, and the text is not drawn.
\<close>

definition load_font :: "env \<Rightarrow> ustring option \<Rightarrow> nat \<Rightarrow> font option" where
  "load_font e font_path font_size =
     (case (case font_path of
              Some fp \<Rightarrow> if truetype_ok e then Some (TrueType fp font_size) else None
            | None \<Rightarrow> if load_default_ok e then Some DefaultFont else None) of
        Some f \<Rightarrow> Some f
      | None \<Rightarrow> if load_default_ok e then Some DefaultFont else None)"

text \<open>\<open>draw.text\<close> inside its \<open>try\<close>: a call that raises leaves the image as it is.\<close>

definition draw_text :: "env \<Rightarrow> image \<Rightarrow> nat \<times> nat \<Rightarrow> ustring \<Rightarrow> font \<Rightarrow> image" where
  "draw_text e img position text f =
     (if draw_ok e text then img\<lparr>img_texts := img_texts img @ [(text, position, f)]\<rparr> else img)"

text \<open>Lines 101 to 111.\<close>

definition content_map :: "pydict \<Rightarrow> (pyval \<times> (nat \<times> nat) \<times> nat) list" where
  "content_map data =
     [(dict_get data (asc ''v0'') (PStr (asc ''N/A'')), (1490, 1030), 80),
      (dict_get data (asc ''v1'') (PStr (asc ''N/A'')), (1450, 1300), 80),
      (dict_get data (asc ''v2'') (PStr (asc ''N/A'')), (1100, 1570), 80),
      (dict_get data (asc ''v3'') (PStr (asc ''N/A'')), (1440, 1850), 80),
      (dict_get data (asc ''v4'') (PStr (asc ''N/A'')), (1000, 2110), 80),
      (dict_get data (asc ''v5'') (PStr (asc ''N/A'')), (1440, 2380), 80)]"

text \<open>The loop of lines 114 to 131.\<close>

fun draw_all ::
  "env \<Rightarrow> ustring option \<Rightarrow> image \<Rightarrow> (pyval \<times> (nat \<times> nat) \<times> nat) list \<Rightarrow> image" where
  "draw_all e font_path img [] = img"
| "draw_all e font_path img ((text, position, font_size) # rest) =
     (case load_font e font_path font_size of
        None \<Rightarrow> draw_all e font_path img rest
      | Some f \<Rightarrow>
          draw_all e font_path (draw_text e img position (py_str (py_repr e) text) f) rest)"

text \<open>Lines 135 to 155.\<close>

definition draw_timestamp :: "env \<Rightarrow> ustring option \<Rightarrow> image \<Rightarrow> image" where
  "draw_timestamp e font_path img =
     (let timestamp = time_strftime (asc ''%Y-%m-%d %H:%M:%S'') (clock_stamp e) in
      case load_font e font_path 80 of
        None \<Rightarrow> img
      | Some timestamp_font \<Rightarrow> draw_text e img (1210, 2680) timestamp timestamp_font)"

text \<open>Lines 159 to 161.\<close>

definition safe_batch :: "ustring \<Rightarrow> ustring" where
  "safe_batch batch_number =
     (let sb = replace_char 32 95 (replace_char 92 95 (replace_char 47 95
                 (lstrip_chars 35 batch_number)))
      in if sb = [] \<or> isspace sb then asc ''UnknownBatch'' else sb)"

text \<open>Lines 162 and 163.\<close>

definition img_filename :: "ustring \<Rightarrow> wallclock \<Rightarrow> ustring" where
  "img_filename batch_number now =
     asc ''Heyao_'' @ safe_batch batch_number @ asc ''_'' @
     time_strftime (asc ''%Y%m%d%H%M%S_%f'') now @ asc ''.png''"

text \<open>
  \<open>generate_image\<close>: the path of the new file, or \<open>None\<close>, and the files afterwards.
  Every exception of the body ends in one of the two handlers of lines 170 to 175, which
  return \<open>None\<close>: a directory that cannot be made, a template that is not an image, a
  batch number that is not a string (it has no \<open>lstrip\<close>), a save that fails.
\<close>

definition generate_image :: "env \<Rightarrow> files \<Rightarrow> pydict \<Rightarrow> ustring option \<times> files" where
  "generate_image e fs data =
     (let template_path = resource_path e (asc ''hymb.png'');
          font_file = resource_path e (asc ''FZSTK.TTF'');
          temp_image_dir = resource_path e (asc ''temp_images'')
      in
      if \<not> mkdir_ok e then (None, fs)
      else if fs template_path = None then (None, fs)
      else
        let font_path = (if fs font_file = None then None else Some font_file) in
        case fs template_path of
          Some (Png template) \<Rightarrow>
            (let batch_number = dict_get data (asc ''v0'') (PStr (asc ''N/A''));
                 img = draw_all e font_path template (content_map data);
                 img = draw_timestamp e font_path img
             in case batch_number of
                  PStr b \<Rightarrow>
                    (let img_path = temp_image_dir @ asc ''/'' @ img_filename b (clock_name e)
                     in if save_ok e then (Some img_path, fs(img_path \<mapsto> Png img))
                        else (None, fs))
                | _ \<Rightarrow> (None, fs))
        | _ \<Rightarrow> (None, fs))"

section \<open>The command handler\<close>

text \<open>
  The plugin object keeps \<open>last_image_path\<close>; the files are the other part of the state
  an invocation changes.
\<close>

record world =
  last_image_path :: "ustring option"
  disk :: files

text \<open>
  What an invocation does, in program order: the results it yields to the host
  (\<open>Plain\<close> for \<open>plain_result\<close>, \<open>Chain\<close> for the \<open>chain_result\<close> with the image
  file), the call of the API client, the attempt to delete a file, the call of the
  renderer with its result, the assignment to \<open>last_image_path\<close>, and an exception that
  leaves the handler.
\<close>

datatype event =
    Plain ustring
  | Chain ustring
  | ApiCall ustring
  | Unlink ustring
  | Render "ustring option"
  | SetPointer ustring
  | Raise exn

text \<open>Lines 265 to 274.\<close>

definition delete_previous :: "env \<Rightarrow> world \<Rightarrow> event list \<times> files" where
  "delete_previous e w =
     (case last_image_path w of
        None \<Rightarrow> ([], disk w)
      | Some p \<Rightarrow>
          if disk w p \<noteq> None
          then ([Unlink p], if unlink_ok e then (disk w)(p := None) else disk w)
          else ([], disk w))"

text \<open>Lines 282 to 310.\<close>

definition deliver :: "env \<Rightarrow> ustring \<Rightarrow> ustring option \<Rightarrow> world \<Rightarrow> event list \<times> world" where
  "deliver e order_id_user image_path w =
     (case image_path of
        Some p \<Rightarrow>
          if disk w p \<noteq> None then
            (let w' = w\<lparr>last_image_path := Some p\<rparr> in
             case handoff e of
               Delivered \<Rightarrow> ([SetPointer p, Chain p], w')
             | PackagingRaises \<Rightarrow> ([SetPointer p, Plain msg_send_problem], w')
             | YieldRaises \<Rightarrow> ([SetPointer p, Chain p, Plain msg_send_problem], w'))
          else ([Plain (msg_render_failed order_id_user)], w)
      | None \<Rightarrow> ([Plain (msg_render_failed order_id_user)], w))"

text \<open>Lines 263 to 310: deletion of the previous image, rendering, delivery.\<close>

definition render_and_deliver :: "env \<Rightarrow> world \<Rightarrow> ustring \<Rightarrow> pydict \<Rightarrow> event list \<times> world" where
  "render_and_deliver e w order_id_user order_details =
     (let (ev1, fs1) = delete_previous e w;
          (image_path, fs2) = generate_image e fs1 order_details;
          (ev2, w2) = deliver e order_id_user image_path (w\<lparr>disk := fs2\<rparr>)
      in (ev1 @ [Render image_path] @ ev2, w2))"

text \<open>\<open>handle_heyao_query\<close>, lines 200 to 312.\<close>

definition handle_heyao_query :: "env \<Rightarrow> world \<Rightarrow> ustring \<Rightarrow> event list \<times> world" where
  "handle_heyao_query e w full_message =
     (let parts = split_max1 full_message in
      if length parts < 2 \<or> strip (parts ! 1) = [] then ([Plain msg_usage], w)
      else
        let order_id_user = strip (parts ! 1) in
        if order_id_user = [] then ([Plain msg_empty], w)
        else
          let started = [Plain (msg_searching order_id_user), ApiCall order_id_user] in
          case fetch_wechat_info (post e order_id_user) of
            Inl x \<Rightarrow> (started @ [Raise x], w)
          | Inr api_data \<Rightarrow>
              if api_data = PNone then (started @ [Plain (msg_fetch_failed order_id_user)], w)
              else
                (case extract_details (py_repr e) order_id_user api_data of
                   Inl m \<Rightarrow> (started @ [Plain m], w)
                 | Inr (PDict order_details) \<Rightarrow>
                     (let (ev, w') = render_and_deliver e w order_id_user order_details
                      in (started @ ev, w'))
                 | Inr _ \<Rightarrow> (started @ [Raise AttributeError], w)))"

section \<open>The specification's wording of two computations\<close>

text \<open>
  The sanitised batch as the specification words it: one leading \<open>#\<close> is stripped, each
  \<open>/\<close>, \<open>\\<close> and space becomes \<open>_\<close>, and \<open>UnknownBatch\<close> stands in for an empty
  or whitespace-only result.
\<close>

definition spec_safe_batch :: "ustring \<Rightarrow> ustring" where
  "spec_safe_batch batch_number =
     (let stripped = (case batch_number of c # cs \<Rightarrow> if c = 35 then cs else batch_number
                      | [] \<Rightarrow> []);
          sb = map (\<lambda>c. if c = 47 \<or> c = 92 \<or> c = 32 then 95 else c) stripped
      in if sb = [] \<or> isspace sb then asc ''UnknownBatch'' else sb)"

text \<open>
  The error text as the specification orders it: an \<open>error\<close> field first, then the code
  \<open>-1\<close>, then the \<open>msg\<close> field, then the generic text.
\<close>

definition spec_error_message :: "(pyval \<Rightarrow> ustring) \<Rightarrow> ustring \<Rightarrow> pydict \<Rightarrow> ustring" where
  "spec_error_message repr order_id_user api_data =
     (if dict_has api_data (asc ''error'')
      then msg_api_error (py_str repr (dict_get api_data (asc ''error'') PNone))
      else if eq_minus_one (dict_get api_data (asc ''code'') PNone)
      then msg_not_found order_id_user
      else if dict_has api_data (asc ''msg'')
      then py_str repr (dict_get api_data (asc ''msg'') PNone)
      else msg_default)"


section \<open>Sample surroundings\<close>

text \<open>
  Concrete surroundings for running the program: a plugin directory that holds the
  template and no font, libraries that do not fail, a clock, and an API that knows one
  order whose batch number is \<open>#A/B C\<close>.
\<close>

definition sample_time :: struct_time where
  "sample_time = \<lparr>tm_year = 2025, tm_mon = 1, tm_mday = 2, tm_hour = 3, tm_min = 4, tm_sec = 5\<rparr>"

definition sample_details :: pydict where
  "sample_details = [(asc ''v0'', PStr (asc ''#A/B C'')), (asc ''v2'', PStr (asc ''42''))]"

definition sample_response :: pydict where
  "sample_response = [(asc ''queryDataList'', PList [PDict [(asc ''content'', PDict sample_details)]])]"

definition sample_env :: env where
  "sample_env =
     \<lparr>plugin_dir = asc ''/p'',
      py_repr = (\<lambda>v. asc ''?''),
      post = (\<lambda>order_id. Response 200 (Some (PDict sample_response))),
      mkdir_ok = True, truetype_ok = True, load_default_ok = True,
      draw_ok = (\<lambda>text. True), save_ok = True, unlink_ok = True,
      handoff = Delivered,
      clock_stamp = \<lparr>localtime = sample_time, usec = 120000\<rparr>,
      clock_name = \<lparr>localtime = sample_time, usec = 250000\<rparr>\<rparr>"

definition sample_template :: image where
  "sample_template = \<lparr>img_size = (2480, 3508), img_texts = []\<rparr>"

definition sample_disk :: files where
  "sample_disk = [asc ''/p/hymb.png'' \<mapsto> Png sample_template]"

definition sample_world :: world where
  "sample_world = \<lparr>last_image_path = None, disk = sample_disk\<rparr>"

text \<open>Answers of the API without a usable \<open>queryDataList\<close>, and one with an empty \<open>content\<close>.\<close>

definition msg_and_error_response :: pydict where
  "msg_and_error_response = [(asc ''msg'', PStr (asc ''x'')), (asc ''error'', PStr (asc ''y''))]"

definition code_and_error_response :: pydict where
  "code_and_error_response = [(asc ''code'', PInt (- 1)), (asc ''error'', PStr (asc ''y''))]"

definition empty_content_response :: pydict where
  "empty_content_response = [(asc ''queryDataList'', PList [PDict [(asc ''content'', PDict [])]])]"

definition answering :: "pydict \<Rightarrow> env" where
  "answering response = sample_env\<lparr>post := (\<lambda>order_id. Response 200 (Some (PDict response)))\<rparr>"

text \<open>
  Variants of the sample surroundings: the saving of the image fails; the clock is read
  one microsecond later; the packaging of the image raises. \<open>sample_path\<close> is the file
  the sample order is rendered to; \<open>after_first\<close> and \<open>after_second\<close> are the states
  after one successful invocation and after a following one whose rendering fails.
\<close>

definition sample_path :: ustring where
  "sample_path = asc ''/p/temp_images/Heyao_A_B_C_20250102030405_%f.png''"

definition save_fails_env :: env where
  "save_fails_env = sample_env\<lparr>save_ok := False\<rparr>"

definition later_env :: env where
  "later_env = sample_env\<lparr>clock_name := \<lparr>localtime = sample_time, usec = 250001\<rparr>\<rparr>"

definition packaging_fails_env :: env where
  "packaging_fails_env = sample_env\<lparr>handoff := PackagingRaises\<rparr>"

definition after_first :: world where
  "after_first = snd (handle_heyao_query sample_env sample_world (asc ''/heyao 42''))"

definition after_second :: world where
  "after_second = snd (handle_heyao_query save_fails_env after_first (asc ''/heyao 42''))"

section \<open>The image that is saved\<close>

text \<open>
  What \<open>generate_image\<close> has drawn when it reaches the saving of the file (lines 94 to
  155): the template with the six fields and the time stamp, in the font the presence of
  the font file selects.
\<close>

definition rendered :: "env \<Rightarrow> files \<Rightarrow> image \<Rightarrow> pydict \<Rightarrow> image" where
  "rendered e fs template data =
     (let font_path = (if fs (resource_path e (asc ''FZSTK.TTF'')) = None then None
                       else Some (resource_path e (asc ''FZSTK.TTF'')))
      in draw_timestamp e font_path (draw_all e font_path template (content_map data)))"

section \<open>Strings\<close>

lemma asc_simps: "asc [] = []" "asc (c # cs) = of_char c # asc cs"
  by (simp_all add: asc_def)

section \<open>The API client returns a value\<close>

text \<open>
  Claim C6. \<open>fetch_wechat_info\<close> returns the failure sentinel \<open>None\<close> on a timeout,
  on another failure of the request, on a status other than 200 and on a body that is not
  JSON; it always returns and never lets an exception out; a result other than \<open>None\<close>
  comes from a response with status 200 only and is its decoded body.
\<close>

theorem fetch_wechat_info_sentinel:
  "(out = PostTimeout \<or> out = PostRequestException \<or> out = PostOtherException \<or>
      (\<exists>status body. out = Response status body \<and> (status \<noteq> 200 \<or> body = None))
     \<longrightarrow> fetch_wechat_info out = Inr PNone) \<and>
   (\<exists>v. fetch_wechat_info out = Inr v) \<and>
   (\<forall>v. fetch_wechat_info out = Inr v \<and> v \<noteq> PNone \<longrightarrow> out = Response 200 (Some v)) \<and>
   fetch_wechat_info (Response 200 (Some j)) = Inr j"
  by (cases out)
     (auto simp: fetch_wechat_info_def fetch_body_def response_truthy_def
           split: option.splits if_splits)

theorem fetch_wechat_info_sentinel_witness:
  "fetch_wechat_info (Response 404 (Some (PInt 1))) = Inr PNone \<and>
   fetch_wechat_info (Response 200 None) = Inr PNone \<and>
   fetch_wechat_info PostTimeout = Inr PNone \<and>
   fetch_wechat_info (Response 200 (Some (PInt 1))) = Inr (PInt 1)"
  using fetch_wechat_info_sentinel [of "Response 404 (Some (PInt 1))" "PInt 1"]
        fetch_wechat_info_sentinel [of "Response 200 None" "PInt 1"]
        fetch_wechat_info_sentinel [of "PostTimeout" "PInt 1"]
  by simp

section \<open>The sanitised batch number\<close>


lemma replace_chars_map:
  "replace_char 32 95 (replace_char 92 95 (replace_char 47 95 s)) =
   map (\<lambda>c. if c = 47 \<or> c = 92 \<or> c = 32 then 95 else c) s"
  by (induction s) (simp_all add: replace_char_def)

lemma safe_batch_eq:
  "safe_batch b =
     (let sb = map (\<lambda>c. if c = 47 \<or> c = 92 \<or> c = 32 then 95 else c) (dropWhile (\<lambda>c. c = 35) b)
      in if sb = [] \<or> isspace sb then asc ''UnknownBatch'' else sb)"
  by (simp add: safe_batch_def replace_chars_map lstrip_chars_def)

lemma safe_batch_single_hash:
  assumes "take 2 b \<noteq> [35, 35]"
  shows "safe_batch b = spec_safe_batch b"
proof (cases b)
  case Nil
  then show ?thesis by (simp add: safe_batch_eq spec_safe_batch_def)
next
  case (Cons c cs)
  show ?thesis
  proof (cases "c = 35")
    case False
    then show ?thesis using Cons by (simp add: safe_batch_eq spec_safe_batch_def)
  next
    case True
    then have "cs = [] \<or> hd cs \<noteq> 35" using assms Cons by (cases cs) auto
    then have "dropWhile (\<lambda>c. c = 35) cs = cs" by (cases cs) auto
    then show ?thesis using Cons True by (simp add: safe_batch_eq spec_safe_batch_def)
  qed
qed

text \<open>
  Claim C4, amended. The sanitised batch is the batch number without all its leading
  \<open>#\<close> characters, with each \<open>/\<close>, \<open>\\\<close> and space replaced by \<open>_\<close>, and
  \<open>UnknownBatch\<close> when that is empty or whitespace only. It agrees with the
  specification's wording whenever the batch number does not begin with two \<open>#\<close>. The
  file name is \<open>Heyao_\<close>, the sanitised batch, \<open>_\<close>, the time stamp and \<open>.png\<close>,
  and \<open>#A/B C\<close> becomes \<open>A_B_C\<close>.
\<close>

theorem safe_batch_filename:
  "safe_batch b =
     (let sb = map (\<lambda>c. if c = 47 \<or> c = 92 \<or> c = 32 then 95 else c) (dropWhile (\<lambda>c. c = 35) b)
      in if sb = [] \<or> isspace sb then asc ''UnknownBatch'' else sb) \<and>
   (take 2 b \<noteq> [35, 35] \<longrightarrow> safe_batch b = spec_safe_batch b) \<and>
   img_filename b now =
     asc ''Heyao_'' @ safe_batch b @ asc ''_'' @ time_strftime (asc ''%Y%m%d%H%M%S_%f'') now @ asc ''.png'' \<and>
   safe_batch (asc ''#A/B C'') = asc ''A_B_C''"
proof -
  have "safe_batch (asc ''#A/B C'') = asc ''A_B_C''"
    by (simp add: safe_batch_eq asc_simps isspace_def is_space_def)
  then show ?thesis
    using safe_batch_eq [of b] safe_batch_single_hash [of b] by (simp add: img_filename_def)
qed

theorem safe_batch_filename_witness:
  "take 2 (asc ''#A/B C'') \<noteq> [35, 35] \<and> safe_batch (asc ''#A/B C'') = spec_safe_batch (asc ''#A/B C'')"
proof -
  have h: "take 2 (asc ''#A/B C'') \<noteq> [35, 35]" by (simp add: asc_simps)
  from safe_batch_filename [of "asc ''#A/B C''" "\<lparr>localtime = sample_time, usec = 0\<rparr>"]
  have "take 2 (asc ''#A/B C'') \<noteq> [35, 35] \<longrightarrow>
        safe_batch (asc ''#A/B C'') = spec_safe_batch (asc ''#A/B C'')"
    by (elim conjE)
  with h show ?thesis by simp
qed

text \<open>
  Claim C4 as stated fails: of the batch number \<open>##A\<close> the program strips both
  \<open>#\<close>, where stripping one leading \<open>#\<close> leaves \<open>#A\<close>.
\<close>

theorem safe_batch_double_hash:
  "safe_batch (asc ''##A'') = asc ''A'' \<and> spec_safe_batch (asc ''##A'') = asc ''#A'' \<and>
   safe_batch (asc ''##A'') \<noteq> spec_safe_batch (asc ''##A'')"
  by (simp add: safe_batch_eq spec_safe_batch_def asc_simps isspace_def is_space_def)

(* C5 *)

section \<open>Messages without an order number\<close>

lemma py_split_Cons:
  assumes "dropWhile is_space s \<noteq> []"
  shows "py_split s = takeWhile (\<lambda>c. \<not> is_space c) (dropWhile is_space s) #
                py_split (dropWhile (\<lambda>c. \<not> is_space c) (dropWhile is_space s))"
proof -
  have "py_split s =
     (let s1 = dropWhile is_space s in
      if s1 = [] then []
      else takeWhile (\<lambda>c. \<not> is_space c) s1 # py_split (dropWhile (\<lambda>c. \<not> is_space c) s1))"
    by (rule py_split.simps)
  then show ?thesis using assms by (simp add: Let_def)
qed

lemma py_split_Nil:
  assumes "dropWhile is_space s = []"
  shows "py_split s = []"
proof -
  have "py_split s =
     (let s1 = dropWhile is_space s in
      if s1 = [] then []
      else takeWhile (\<lambda>c. \<not> is_space c) s1 # py_split (dropWhile (\<lambda>c. \<not> is_space c) s1))"
    by (rule py_split.simps)
  then show ?thesis using assms by simp
qed

lemma py_split_empty_iff: "py_split s = [] \<longleftrightarrow> dropWhile is_space s = []"
proof (cases "dropWhile is_space s = []")
  case True
  then show ?thesis by (simp add: py_split_Nil)
next
  case False
  then show ?thesis by (simp only: py_split_Cons [OF False]) simp
qed



lemma py_split_short_iff:
  assumes False: "dropWhile is_space s \<noteq> []"
  shows "length (py_split s) < 2 \<longleftrightarrow>
     py_split (dropWhile (\<lambda>c. \<not> is_space c) (dropWhile is_space s)) = []"
proof -
  let ?tok = "takeWhile (\<lambda>c. \<not> is_space c) (dropWhile is_space s)"
  let ?r = "dropWhile (\<lambda>c. \<not> is_space c) (dropWhile is_space s)"
  have ps: "py_split s = ?tok # py_split ?r" using False by (rule py_split_Cons)
  have "length (?tok # py_split ?r) < 2 \<longleftrightarrow> py_split ?r = []"
    by (cases "py_split ?r") simp_all
  then show ?thesis by (simp only: ps)
qed



lemma length_parts: "length (if c then [] else if d then [a] else [a, b]) < 2 \<longleftrightarrow> c \<or> d"
  by simp

lemma split_max1_unfold:
  "split_max1 s =
     (if dropWhile is_space s = [] then []
      else if dropWhile is_space (dropWhile (\<lambda>c. \<not> is_space c) (dropWhile is_space s)) = []
      then [takeWhile (\<lambda>c. \<not> is_space c) (dropWhile is_space s)]
      else [takeWhile (\<lambda>c. \<not> is_space c) (dropWhile is_space s),
            dropWhile is_space (dropWhile (\<lambda>c. \<not> is_space c) (dropWhile is_space s))])"
  unfolding split_max1_def Let_def by (rule refl)

lemma split_max1_short_iff:
  "length (split_max1 s) < 2 \<longleftrightarrow>
     dropWhile is_space s = [] \<or>
     dropWhile is_space (dropWhile (\<lambda>c. \<not> is_space c) (dropWhile is_space s)) = []"
  unfolding split_max1_unfold by (rule length_parts)

lemma split_max1_short:
  "length (split_max1 s) < 2 \<longleftrightarrow> length (py_split s) < 2"
proof (cases "dropWhile is_space s = []")
  case True
  have "py_split s = []" using True by (rule py_split_Nil)
  then have "length (py_split s) < 2" by simp
  moreover have "length (split_max1 s) < 2"
    using True split_max1_short_iff [of s] by blast
  ultimately show ?thesis by blast
next
  case False
  show ?thesis
    using False py_split_short_iff [OF False] split_max1_short_iff [of s]
      py_split_empty_iff [of "dropWhile (\<lambda>c. \<not> is_space c) (dropWhile is_space s)"]
    by blast
qed

lemma takeWhile_not_hd: "xs \<noteq> [] \<Longrightarrow> \<not> P (hd xs) \<Longrightarrow> takeWhile (\<lambda>c. \<not> P c) xs \<noteq> []"
  by (cases xs) simp_all

lemma py_split_tokens:
  "t \<in> set (py_split s) \<Longrightarrow> t \<noteq> [] \<and> (\<forall>c \<in> set t. \<not> is_space c)"
proof (induction s rule: py_split.induct)
  case (1 s)
  let ?s1 = "dropWhile is_space s"
  let ?tok = "takeWhile (\<lambda>c. \<not> is_space c) ?s1"
  let ?r = "dropWhile (\<lambda>c. \<not> is_space c) ?s1"
  show ?case
  proof (cases "?s1 = []")
    case True
    then have "py_split s = []" by (rule py_split_Nil)
    then have "t \<notin> set (py_split s)" by (simp only: set_simps empty_iff not_False_eq_True)
    then show ?thesis using "1.prems" by (rule notE)
  next
    case False
    then have hd: "\<not> is_space (hd ?s1)" by (rule hd_dropWhile)
    have "py_split s = ?tok # py_split ?r" using False by (rule py_split_Cons)
    then have "set (py_split s) = insert ?tok (set (py_split ?r))" by (simp only: set_simps)
    then consider "t = ?tok" | "t \<in> set (py_split ?r)"
      using "1.prems" by blast
    then show ?thesis
    proof cases
      case 1
      have "?tok \<noteq> []" using False hd by (rule takeWhile_not_hd)
      moreover have "\<forall>c \<in> set ?tok. \<not> is_space c"
        by (blast dest: set_takeWhileD)
      ultimately show ?thesis unfolding 1 by blast
    next
      case 2
      then show ?thesis using "1.IH" [OF refl False] by blast
    qed
  qed
qed

lemma strip_no_space:
  assumes "t \<noteq> []" "\<forall>c \<in> set t. \<not> is_space c"
  shows "strip t = t"
proof -
  have "dropWhile is_space t = t" using assms by (cases t) auto
  moreover have "dropWhile is_space (rev t) = rev t" using assms by (cases "rev t") auto
  ultimately show ?thesis by (simp add: strip_def)
qed





lemma handle_usage:
  "length (split_max1 m) < 2 \<or> strip (split_max1 m ! 1) = [] \<Longrightarrow>
   handle_heyao_query e w m = ([Plain msg_usage], w)"
  unfolding handle_heyao_query_def Let_def by (rule if_P)

text \<open>
  Claim C5. A message without a second whitespace-separated token, or whose second
  token is empty after trimming, yields the usage text and nothing else: the state is
  unchanged and the API client is not called.
\<close>

theorem missing_order_id_usage:
  assumes "length (py_split full_message) < 2 \<or> strip (py_split full_message ! 1) = []"
  shows "handle_heyao_query e w full_message = ([Plain msg_usage], w) \<and>
         (\<forall>x. ApiCall x \<notin> set (fst (handle_heyao_query e w full_message)))"
proof -
  have short: "length (py_split full_message) < 2"
  proof (rule ccontr)
    assume "\<not> length (py_split full_message) < 2"
    then have len: "1 < length (py_split full_message)" by simp
    then have "py_split full_message ! 1 \<in> set (py_split full_message)" by (rule nth_mem)
    from py_split_tokens [OF this]
    have "strip (py_split full_message ! 1) = py_split full_message ! 1"
      and "py_split full_message ! 1 \<noteq> []"
      by (simp_all add: strip_no_space)
    then show False using assms len by simp
  qed
  then have "length (split_max1 full_message) < 2" by (simp only: split_max1_short)
  then have eq: "handle_heyao_query e w full_message = ([Plain msg_usage], w)"
    by (intro handle_usage disjI1)
  show ?thesis unfolding eq by simp
qed

lemma py_split_heyao: "py_split (asc ''/heyao  '') = [asc ''/heyao'']"
proof -
  let ?m = "[47, 104, 101, 121, 97, 111, 32, 32] :: ustring"
  have m: "asc ''/heyao  '' = ?m" and t: "asc ''/heyao'' = [47, 104, 101, 121, 97, 111]"
    by (simp_all add: asc_simps)
  have a: "dropWhile is_space ?m = ?m" by (simp add: is_space_def)
  have b: "takeWhile (\<lambda>c. \<not> is_space c) ?m = [47, 104, 101, 121, 97, 111]"
    by (simp add: is_space_def)
  have c: "dropWhile (\<lambda>c. \<not> is_space c) ?m = [32, 32]" by (simp add: is_space_def)
  have d: "dropWhile is_space [32, 32] = []" by (simp add: is_space_def)
  have e: "py_split [32, 32] = []" using d by (rule py_split_Nil)
  have "dropWhile is_space ?m \<noteq> []" unfolding a by simp
  then have "py_split ?m = takeWhile (\<lambda>c. \<not> is_space c) (dropWhile is_space ?m) #
                py_split (dropWhile (\<lambda>c. \<not> is_space c) (dropWhile is_space ?m))"
    by (rule py_split_Cons)
  then have "py_split ?m = [[47, 104, 101, 121, 97, 111]]" unfolding a b c e .
  then show ?thesis unfolding m t .
qed

theorem missing_order_id_usage_witness:
  "length (py_split (asc ''/heyao  '')) < 2 \<and>
   handle_heyao_query sample_env sample_world (asc ''/heyao  '') = ([Plain msg_usage], sample_world)"
proof -
  have h: "length (py_split (asc ''/heyao  '')) < 2" by (simp only: py_split_heyao) simp
  show ?thesis using h missing_order_id_usage [of "asc ''/heyao  ''" sample_env sample_world] by blast
qed

section \<open>Answers without results\<close>


lemma error_message_cases:
  "error_message repr order_id d =
     (if dict_has d (asc ''msg'') \<and> dict_get d (asc ''msg'') PNone \<noteq> PStr msg_default
      then py_str repr (dict_get d (asc ''msg'') PNone)
      else if eq_minus_one (dict_get d (asc ''code'') PNone) then msg_not_found order_id
      else if dict_has d (asc ''error'')
      then msg_api_error (py_str repr (dict_get d (asc ''error'') PNone))
      else msg_default)"
  by (auto simp: error_message_def dict_get_def dict_has_def Let_def split: option.splits)

lemma extract_no_results:
  assumes "\<not> (\<exists>x xs. dict_get d (asc ''queryDataList'') PNone = PList (x # xs))"
  shows "extract_details repr order_id (PDict d) =
     Inl (msg_query_failed (error_message repr order_id d) order_id)"
proof -
  let ?q = "dict_get d (asc ''queryDataList'') PNone"
  have "\<not> truthy ?q \<or> \<not> is_list ?q"
    using assms by (cases ?q) (auto simp: neq_Nil_conv)
  then show ?thesis
    unfolding extract_details_def extract_body_def by auto
qed

lemma extract_content:
  assumes "dict_get d (asc ''queryDataList'') PNone = PList (PDict first # rest)"
      and "dict_get first (asc ''content'') PNone = PDict details"
      and "details \<noteq> []"
  shows "extract_details repr order_id (PDict d) = Inr (PDict details)"
  using assms by (simp add: extract_details_def extract_body_def)

lemma extract_empty_content:
  assumes "dict_get d (asc ''queryDataList'') PNone = PList (PDict first # rest)"
      and "dict_get first (asc ''content'') PNone = PDict []"
  shows "extract_details repr order_id (PDict d) = Inl (msg_unparsed order_id)"
  using assms by (simp add: extract_details_def extract_body_def)

lemma handle_fetched:
  assumes "split_max1 m = [cmd, arg]" "strip arg \<noteq> []"
          "post e (strip arg) = Response 200 (Some api)" "api \<noteq> PNone"
  shows "handle_heyao_query e w m =
     (case extract_details (py_repr e) (strip arg) api of
        Inl msg \<Rightarrow> ([Plain (msg_searching (strip arg)), ApiCall (strip arg), Plain msg], w)
      | Inr (PDict order_details) \<Rightarrow>
          (let (ev, w') = render_and_deliver e w (strip arg) order_details
           in ([Plain (msg_searching (strip arg)), ApiCall (strip arg)] @ ev, w'))
      | Inr _ \<Rightarrow> ([Plain (msg_searching (strip arg)), ApiCall (strip arg), Raise AttributeError], w))"
proof -
  have f: "fetch_wechat_info (post e (strip arg)) = Inr api"
    using assms(3) by (simp add: fetch_wechat_info_def fetch_body_def response_truthy_def)
  show ?thesis
    unfolding handle_heyao_query_def Let_def
    using assms(1,2,4) f
    by (simp split: sum.splits pyval.splits)
qed

lemma split_heyao_42: "split_max1 (asc ''/heyao 42'') = [asc ''/heyao'', asc ''42'']"
  by (simp add: split_max1_def asc_simps is_space_def)

lemma strip_42: "strip (asc ''42'') = asc ''42''"
  by (simp add: strip_def asc_simps is_space_def)

text \<open>
  Claim C1, amended. When \<open>queryDataList\<close> is absent, empty or not a list, the reported
  text is built with this precedence: a \<open>msg\<close> field that differs from the generic text,
  then the code \<open>-1\<close> as "order not found", then the \<open>error\<close> field, then the generic
  text.
\<close>

theorem no_results_message:
  assumes "split_max1 m = [cmd, arg]" "strip arg \<noteq> []"
      and "post e (strip arg) = Response 200 (Some (PDict d))"
      and "\<not> (\<exists>x xs. dict_get d (asc ''queryDataList'') PNone = PList (x # xs))"
  shows "handle_heyao_query e w m =
     ([Plain (msg_searching (strip arg)), ApiCall (strip arg),
       Plain (msg_query_failed
         (if dict_has d (asc ''msg'') \<and> dict_get d (asc ''msg'') PNone \<noteq> PStr msg_default
          then py_str (py_repr e) (dict_get d (asc ''msg'') PNone)
          else if eq_minus_one (dict_get d (asc ''code'') PNone) then msg_not_found (strip arg)
          else if dict_has d (asc ''error'')
          then msg_api_error (py_str (py_repr e) (dict_get d (asc ''error'') PNone))
          else msg_default) (strip arg))], w)"
proof -
  have "extract_details (py_repr e) (strip arg) (PDict d) =
     Inl (msg_query_failed (error_message (py_repr e) (strip arg) d) (strip arg))"
    using assms(4) by (rule extract_no_results)
  then show ?thesis
    unfolding error_message_cases
    using handle_fetched [OF assms(1,2,3)] by simp
qed

lemma code_and_error_lookups:
  "dict_get code_and_error_response (asc ''queryDataList'') PNone = PNone"
  "\<not> dict_has code_and_error_response (asc ''msg'')"
  "dict_get code_and_error_response (asc ''code'') PNone = PInt (- 1)"
  by (simp_all add: code_and_error_response_def dict_get_def dict_has_def asc_simps)

theorem no_results_message_witness:
  "split_max1 (asc ''/heyao 42'') = [asc ''/heyao'', asc ''42''] \<and>
   strip (asc ''42'') \<noteq> [] \<and>
   post (answering code_and_error_response) (strip (asc ''42'')) =
     Response 200 (Some (PDict code_and_error_response)) \<and>
   \<not> (\<exists>x xs. dict_get code_and_error_response (asc ''queryDataList'') PNone = PList (x # xs)) \<and>
   handle_heyao_query (answering code_and_error_response) sample_world (asc ''/heyao 42'') =
     ([Plain (msg_searching (asc ''42'')), ApiCall (asc ''42''),
       Plain (msg_query_failed (msg_not_found (asc ''42'')) (asc ''42''))], sample_world)"
proof -
  have a: "strip (asc ''42'') \<noteq> []" unfolding strip_42 by (simp add: asc_simps)
  have b: "post (answering code_and_error_response) (strip (asc ''42'')) =
     Response 200 (Some (PDict code_and_error_response))"
    by (simp add: answering_def sample_env_def)
  have c: "\<not> (\<exists>x xs. dict_get code_and_error_response (asc ''queryDataList'') PNone = PList (x # xs))"
    by (simp add: code_and_error_lookups)
  show ?thesis
    using no_results_message [OF split_heyao_42 a b c, of sample_world] split_heyao_42 a b c
    by (simp add: code_and_error_lookups strip_42)
qed

text \<open>
  Claim C1 as stated fails: for an answer with both a \<open>msg\<close> and an \<open>error\<close> field
  the handler reports the \<open>msg\<close> field, not the \<open>error\<close> field.
\<close>

theorem msg_before_error_field:
  "handle_heyao_query (answering msg_and_error_response) sample_world (asc ''/heyao 42'') =
     ([Plain (msg_searching (asc ''42'')), ApiCall (asc ''42''),
       Plain (msg_query_failed (asc ''x'') (asc ''42''))], sample_world) \<and>
   spec_error_message (py_repr (answering msg_and_error_response)) (asc ''42'') msg_and_error_response =
     msg_api_error (asc ''y'') \<and>
   error_message (py_repr (answering msg_and_error_response)) (asc ''42'') msg_and_error_response \<noteq>
   spec_error_message (py_repr (answering msg_and_error_response)) (asc ''42'') msg_and_error_response"
proof -
  have l: "dict_get msg_and_error_response (asc ''queryDataList'') PNone = PNone"
    "dict_has msg_and_error_response (asc ''msg'')"
    "dict_get msg_and_error_response (asc ''msg'') PNone = PStr (asc ''x'')"
    "dict_has msg_and_error_response (asc ''error'')"
    "dict_get msg_and_error_response (asc ''error'') PNone = PStr (asc ''y'')"
    by (simp_all add: msg_and_error_response_def dict_get_def dict_has_def asc_simps)
  have nd: "PStr (asc ''x'') \<noteq> PStr msg_default" by (simp add: msg_default_def asc_simps)
  have em: "error_message r (asc ''42'') msg_and_error_response = asc ''x''" for r
    unfolding error_message_cases using l nd by simp
  have sm: "spec_error_message r (asc ''42'') msg_and_error_response = msg_api_error (asc ''y'')" for r
    unfolding spec_error_message_def using l by simp
  have ne: "asc ''x'' \<noteq> msg_api_error (asc ''y'')" by (simp add: msg_api_error_def asc_simps)
  have a: "strip (asc ''42'') \<noteq> []" unfolding strip_42 by (simp add: asc_simps)
  have b: "post (answering msg_and_error_response) (strip (asc ''42'')) =
     Response 200 (Some (PDict msg_and_error_response))"
    by (simp add: answering_def sample_env_def)
  have c: "\<not> (\<exists>x xs. dict_get msg_and_error_response (asc ''queryDataList'') PNone = PList (x # xs))"
    by (simp add: l)
  have "extract_details r (asc ''42'') (PDict msg_and_error_response) =
     Inl (msg_query_failed (asc ''x'') (asc ''42''))" for r
    using extract_no_results [OF c] em by simp
  then have h: "handle_heyao_query (answering msg_and_error_response) sample_world (asc ''/heyao 42'') =
     ([Plain (msg_searching (asc ''42'')), ApiCall (asc ''42''),
       Plain (msg_query_failed (asc ''x'') (asc ''42''))], sample_world)"
    using handle_fetched [OF split_heyao_42 a b, of sample_world] by (simp add: strip_42)
  show ?thesis using h em sm ne by simp
qed

section \<open>Drawing\<close>

lemma load_font_None:
  "load_font e None n = (if load_default_ok e then Some DefaultFont else None)"
  by (simp add: load_font_def)

lemma load_font_default_ok:
  "load_default_ok e \<Longrightarrow> \<exists>f. load_font e fp n = Some f"
  by (cases fp) (simp_all add: load_font_def)

lemma draw_text_size: "img_size (draw_text e img pos text f) = img_size img"
  by (simp add: draw_text_def)

lemma draw_all_size: "img_size (draw_all e fp img items) = img_size img"
  by (induction e fp img items rule: draw_all.induct)
     (simp_all add: draw_text_size split: option.splits)

lemma draw_timestamp_size: "img_size (draw_timestamp e fp img) = img_size img"
  by (simp add: draw_timestamp_def draw_text_size split: option.splits)

lemma draw_all_mono: "set (img_texts img) \<subseteq> set (img_texts (draw_all e fp img items))"
proof (induction e fp img items rule: draw_all.induct)
  case (1 e fp img)
  then show ?case by simp
next
  case (2 e fp img tx position font_size rest)
  show ?case
  proof (cases "load_font e fp font_size")
    case None
    then show ?thesis using 2(1) by simp
  next
    case (Some f)
    have "set (img_texts img) \<subseteq> set (img_texts (draw_text e img position (py_str (py_repr e) tx) f))"
      by (auto simp: draw_text_def)
    then show ?thesis using 2(2) [OF Some] Some by auto
  qed
qed

lemma draw_all_mem:
  assumes "(text, pos, n) \<in> set items" "load_font e fp n = Some f"
          "draw_ok e (py_str (py_repr e) text)"
  shows "(py_str (py_repr e) text, pos, f) \<in> set (img_texts (draw_all e fp img items))"
  using assms
proof (induction e fp img items rule: draw_all.induct)
  case (1 e fp img)
  then show ?case by simp
next
  case (2 e fp img text' position font_size rest)
  show ?case
  proof (cases "(text, pos, n) = (text', position, font_size)")
    case True
    then have eq: "text' = text" "position = pos" "font_size = n" by simp_all
    let ?img1 = "draw_text e img pos (py_str (py_repr e) text) f"
    have "(py_str (py_repr e) text, pos, f) \<in> set (img_texts ?img1)"
      using "2.prems"(3) by (simp add: draw_text_def)
    then have "(py_str (py_repr e) text, pos, f) \<in> set (img_texts (draw_all e fp ?img1 rest))"
      using draw_all_mono [of ?img1 e fp rest] by blast
    then show ?thesis using "2.prems"(2) eq by simp
  next
    case False
    then have mem: "(text, pos, n) \<in> set rest" using "2.prems"(1) by auto
    show ?thesis
    proof (cases "load_font e fp font_size")
      case None
      then show ?thesis using 2(1) [OF None mem "2.prems"(2,3)] by simp
    next
      case (Some g)
      then show ?thesis using 2(2) [OF Some mem "2.prems"(2,3)] by simp
    qed
  qed
qed

lemma draw_timestamp_mono: "set (img_texts img) \<subseteq> set (img_texts (draw_timestamp e fp img))"
  by (auto simp: draw_timestamp_def draw_text_def split: option.splits)

lemma generate_image_success:
  assumes "mkdir_ok e" "fs (resource_path e (asc ''hymb.png'')) = Some (Png template)"
          "dict_get data (asc ''v0'') (PStr (asc ''N/A'')) = PStr b" "save_ok e"
  shows "generate_image e fs data =
          (Some (resource_path e (asc ''temp_images'') @ asc ''/'' @ img_filename b (clock_name e)),
           fs(resource_path e (asc ''temp_images'') @ asc ''/'' @ img_filename b (clock_name e)
                \<mapsto> Png (rendered e fs template data)))"
  using assms by (simp add: generate_image_def rendered_def Let_def)

lemma generate_image_None: "generate_image e fs data = (None, fs') \<Longrightarrow> fs' = fs"
  by (auto simp: generate_image_def Let_def split: if_splits option.splits content.splits pyval.splits)

lemma generate_image_Some: "generate_image e fs data = (Some p, fs') \<Longrightarrow> fs' p \<noteq> None \<and> (\<forall>q. q \<noteq> p \<longrightarrow> fs' q = fs q)"
  by (auto simp: generate_image_def Let_def split: if_splits option.splits content.splits pyval.splits)


section \<open>The handler around the renderer\<close>

lemma delete_previous_events: "set (fst (delete_previous e w)) \<subseteq> range Unlink"
  by (auto simp: delete_previous_def split: option.splits)

lemma render_and_deliver_failed:
  assumes "fst (generate_image e (snd (delete_previous e w)) d) = None"
  shows "render_and_deliver e w order_id d =
     (fst (delete_previous e w) @ [Render None, Plain (msg_render_failed order_id)],
      w\<lparr>disk := snd (delete_previous e w)\<rparr>)"
proof -
  obtain ev1 fs1 where dp: "delete_previous e w = (ev1, fs1)" by (cases "delete_previous e w")
  obtain r fs2 where gi: "generate_image e fs1 d = (r, fs2)" by (cases "generate_image e fs1 d")
  have r: "r = None" using assms dp gi by simp
  then have "fs2 = fs1" using gi generate_image_None by blast
  then show ?thesis using dp gi r by (simp add: render_and_deliver_def deliver_def)
qed

lemma render_and_deliver_succeeded:
  assumes "generate_image e (snd (delete_previous e w)) d = (Some p, fs2)"
  shows "render_and_deliver e w order_id d =
     (fst (delete_previous e w) @ [Render (Some p), SetPointer p] @
        (case handoff e of
           Delivered \<Rightarrow> [Chain p]
         | PackagingRaises \<Rightarrow> [Plain msg_send_problem]
         | YieldRaises \<Rightarrow> [Chain p, Plain msg_send_problem]),
      \<lparr>last_image_path = Some p, disk = fs2\<rparr>)"
proof -
  obtain ev1 fs1 where dp: "delete_previous e w = (ev1, fs1)" by (cases "delete_previous e w")
  have gi: "generate_image e fs1 d = (Some p, fs2)" using assms dp by simp
  then have "fs2 p \<noteq> None" using generate_image_Some by blast
  then show ?thesis using dp gi
    by (cases "handoff e") (auto simp: render_and_deliver_def deliver_def)
qed

lemma render_and_deliver_render:
  assumes "Render r \<in> set (fst (render_and_deliver e w order_id d))"
  shows "fst (generate_image e (snd (delete_previous e w)) d) = r"
proof (cases "fst (generate_image e (snd (delete_previous e w)) d)")
  case None
  have "Render r \<notin> set (fst (delete_previous e w))"
    using delete_previous_events [of e w] by auto
  then show ?thesis using assms None by (simp add: render_and_deliver_failed [OF None])
next
  case (Some p)
  then obtain fs2 where gi: "generate_image e (snd (delete_previous e w)) d = (Some p, fs2)"
    by (cases "generate_image e (snd (delete_previous e w)) d") simp
  have "Render r \<notin> set (fst (delete_previous e w))"
    using delete_previous_events [of e w] by auto
  then show ?thesis using assms Some
    by (cases "handoff e") (simp_all add: render_and_deliver_succeeded [OF gi])
qed

lemma handle_render:
  assumes "Render r \<in> set (fst (handle_heyao_query e w m))"
  shows "\<exists>order_id d. handle_heyao_query e w m =
           ([Plain (msg_searching order_id), ApiCall order_id] @
              fst (render_and_deliver e w order_id d),
            snd (render_and_deliver e w order_id d)) \<and>
         Render r \<in> set (fst (render_and_deliver e w order_id d))"
  using assms unfolding handle_heyao_query_def Let_def
  by (fastforce simp: case_prod_beta split: if_splits sum.splits pyval.splits)

lemma handle_rendered:
  assumes "split_max1 m = [cmd, arg]" "strip arg \<noteq> []"
      and "post e (strip arg) = Response 200 (Some (PDict d))"
      and "dict_get d (asc ''queryDataList'') PNone = PList (PDict first # rest)"
      and "dict_get first (asc ''content'') PNone = PDict details"
      and "details \<noteq> []"
  shows "handle_heyao_query e w m =
     ([Plain (msg_searching (strip arg)), ApiCall (strip arg)] @
        fst (render_and_deliver e w (strip arg) details),
      snd (render_and_deliver e w (strip arg) details))"
proof -
  have "extract_details (py_repr e) (strip arg) (PDict d) = Inr (PDict details)"
    using assms(4,5,6) by (rule extract_content)
  then show ?thesis
    using handle_fetched [OF assms(1,2,3), of w] by (simp add: case_prod_beta)
qed

lemma img_filename_same_second:
  "localtime c1 = localtime c2 \<Longrightarrow> img_filename b c1 = img_filename b c2"
  by (simp add: img_filename_def time_strftime_def)

lemma sample_filename:
  "img_filename (asc ''#A/B C'') \<lparr>localtime = sample_time, usec = u\<rparr> =
   asc ''Heyao_A_B_C_20250102030405_%f.png''"
proof -
  have "img_filename (asc ''#A/B C'') \<lparr>localtime = sample_time, usec = 0\<rparr> =
        asc ''Heyao_A_B_C_20250102030405_%f.png''"
    by (simp add: img_filename_def safe_batch_def lstrip_chars_def replace_char_def isspace_def
          is_space_def time_strftime_def sample_time_def directive_def zero_pad_def digits.simps
          asc_simps)
  then show ?thesis
    using img_filename_same_second
      [of "\<lparr>localtime = sample_time, usec = u\<rparr>" "\<lparr>localtime = sample_time, usec = 0\<rparr>"]
    by simp
qed

lemma sample_lookups:
  "dict_get sample_response (asc ''queryDataList'') PNone = PList (PDict [(asc ''content'', PDict sample_details)] # [])"
  "dict_get [(asc ''content'', PDict sample_details)] (asc ''content'') PNone = PDict sample_details"
  "sample_details \<noteq> []"
  "dict_get sample_details (asc ''v0'') (PStr (asc ''N/A'')) = PStr (asc ''#A/B C'')"
  by (simp_all add: sample_response_def sample_details_def dict_get_def asc_simps)

lemma sample_paths:
  "resource_path sample_env (asc ''hymb.png'') = asc ''/p/hymb.png''"
  "resource_path sample_env (asc ''temp_images'') @ asc ''/'' @ asc ''Heyao_A_B_C_20250102030405_%f.png'' = sample_path"
  "sample_disk (asc ''/p/hymb.png'') = Some (Png sample_template)"
  "sample_disk sample_path = None"
  by (simp_all add: resource_path_def sample_env_def sample_path_def sample_disk_def asc_simps)

section \<open>A failed rendering after a successful one\<close>

lemma sample_generate:
  assumes "mkdir_ok e" "save_ok e" "plugin_dir e = plugin_dir sample_env"
      and "localtime (clock_name e) = sample_time"
      and "fs (asc ''/p/hymb.png'') = Some (Png template)"
  shows "generate_image e fs sample_details =
           (Some sample_path, fs(sample_path \<mapsto> Png (rendered e fs template sample_details)))"
proof -
  have rp: "resource_path e x = resource_path sample_env x" for x
    using assms(3) by (simp add: resource_path_def)
  have fn: "img_filename (asc ''#A/B C'') (clock_name e) = asc ''Heyao_A_B_C_20250102030405_%f.png''"
    using img_filename_same_second [of "clock_name e" "\<lparr>localtime = sample_time, usec = 0\<rparr>"]
      assms(4) sample_filename [of 0] by simp
  have tp: "fs (resource_path e (asc ''hymb.png'')) = Some (Png template)"
    using assms(5) by (simp only: rp sample_paths)
  show ?thesis
    using generate_image_success [of e fs template sample_details "asc ''#A/B C''",
        OF assms(1) tp sample_lookups(4) assms(2)]
    by (simp only: fn rp sample_paths)
qed

lemma sample_first_run:
  "handle_heyao_query sample_env sample_world (asc ''/heyao 42'') =
     ([Plain (msg_searching (asc ''42'')), ApiCall (asc ''42''), Render (Some sample_path),
       SetPointer sample_path, Chain sample_path],
      \<lparr>last_image_path = Some sample_path,
       disk = sample_disk(sample_path \<mapsto> Png (rendered sample_env sample_disk sample_template sample_details))\<rparr>)"
proof -
  have a: "strip (asc ''42'') \<noteq> []" unfolding strip_42 by (simp add: asc_simps)
  have b: "post sample_env (strip (asc ''42'')) = Response 200 (Some (PDict sample_response))"
    by (simp add: sample_env_def)
  have dp: "delete_previous sample_env sample_world = ([], sample_disk)"
    by (simp add: delete_previous_def sample_world_def)
  have gi: "generate_image sample_env sample_disk sample_details =
      (Some sample_path, sample_disk(sample_path \<mapsto> Png (rendered sample_env sample_disk sample_template sample_details)))"
    by (rule sample_generate) (simp_all add: sample_env_def sample_paths)
  have "render_and_deliver sample_env sample_world (asc ''42'') sample_details =
     ([Render (Some sample_path), SetPointer sample_path, Chain sample_path],
      \<lparr>last_image_path = Some sample_path,
       disk = sample_disk(sample_path \<mapsto> Png (rendered sample_env sample_disk sample_template sample_details))\<rparr>)"
    using render_and_deliver_succeeded [of sample_env sample_world sample_details sample_path _ "asc ''42''"]
      gi dp by (simp add: sample_env_def)
  then show ?thesis
    using handle_rendered [OF split_heyao_42 a b sample_lookups(1,2,3), of sample_world]
    by (simp add: strip_42)
qed

lemma generate_image_save_fails: "\<not> save_ok e \<Longrightarrow> fst (generate_image e fs d) = None"
  by (auto simp: generate_image_def Let_def split: option.splits content.splits pyval.splits)

lemma after_first_eq:
  "after_first = \<lparr>last_image_path = Some sample_path,
       disk = sample_disk(sample_path \<mapsto> Png (rendered sample_env sample_disk sample_template sample_details))\<rparr>"
  by (simp add: after_first_def sample_first_run)

lemma sample_second_run:
  "handle_heyao_query save_fails_env after_first (asc ''/heyao 42'') =
     ([Plain (msg_searching (asc ''42'')), ApiCall (asc ''42''), Unlink sample_path, Render None,
       Plain (msg_render_failed (asc ''42''))],
      \<lparr>last_image_path = Some sample_path, disk = sample_disk(sample_path := None)\<rparr>)"
proof -
  have a: "strip (asc ''42'') \<noteq> []" unfolding strip_42 by (simp add: asc_simps)
  have b: "post save_fails_env (strip (asc ''42'')) = Response 200 (Some (PDict sample_response))"
    by (simp add: sample_env_def save_fails_env_def)
  have dp: "delete_previous save_fails_env after_first = ([Unlink sample_path], sample_disk(sample_path := None))"
    by (simp add: delete_previous_def after_first_eq save_fails_env_def sample_env_def)
  have "\<not> save_ok save_fails_env" by (simp add: save_fails_env_def)
  then have "fst (generate_image save_fails_env (snd (delete_previous save_fails_env after_first)) sample_details) = None"
    by (rule generate_image_save_fails)
  from render_and_deliver_failed [OF this, of "asc ''42''"]
  have "render_and_deliver save_fails_env after_first (asc ''42'') sample_details =
     ([Unlink sample_path, Render None, Plain (msg_render_failed (asc ''42''))],
      \<lparr>last_image_path = Some sample_path, disk = sample_disk(sample_path := None)\<rparr>)"
    by (simp add: dp) (simp add: after_first_eq)
  then show ?thesis
    using handle_rendered [OF split_heyao_42 a b sample_lookups(1,2,3), of after_first]
    by (simp add: strip_42)
qed

text \<open>
  Claim C2, amended. When an invocation whose rendering succeeds is followed by one that
  reaches the renderer and whose rendering fails, \<open>last_image_path\<close> still refers to
  the first file afterwards: a failed generation neither clears nor replaces it. The
  first file itself has gone through the deletion that precedes rendering: it is still
  there only when that deletion failed.
\<close>

theorem failed_render_keeps_pointer:
  assumes "handle_heyao_query e1 w0 m1 = (t1, w1)" "Render (Some p1) \<in> set t1"
      and "handle_heyao_query e2 w1 m2 = (t2, w2)" "Render None \<in> set t2"
  shows "last_image_path w1 = Some p1 \<and> disk w1 p1 \<noteq> None \<and>
         last_image_path w2 = Some p1 \<and>
         disk w2 p1 = (if unlink_ok e2 then None else disk w1 p1)"
proof -
  from handle_render [of "Some p1" e1 w0 m1] assms(1,2)
  obtain o1 d1 where
    w1: "w1 = snd (render_and_deliver e1 w0 o1 d1)" and
    r1: "Render (Some p1) \<in> set (fst (render_and_deliver e1 w0 o1 d1))"
    by auto
  from render_and_deliver_render [OF r1]
  obtain fs2 where "generate_image e1 (snd (delete_previous e1 w0)) d1 = (Some p1, fs2)"
    by (cases "generate_image e1 (snd (delete_previous e1 w0)) d1") simp
  then have first: "w1 = \<lparr>last_image_path = Some p1, disk = fs2\<rparr>" "fs2 p1 \<noteq> None"
    using w1 render_and_deliver_succeeded [of e1 w0 d1 p1 fs2 o1] generate_image_Some [of e1 _ d1 p1 fs2]
    by simp_all
  from handle_render [of None e2 w1 m2] assms(3,4)
  obtain o2 d2 where
    w2: "w2 = snd (render_and_deliver e2 w1 o2 d2)" and
    r2: "Render None \<in> set (fst (render_and_deliver e2 w1 o2 d2))"
    by auto
  from render_and_deliver_render [OF r2]
  have "w2 = w1\<lparr>disk := snd (delete_previous e2 w1)\<rparr>"
    using w2 render_and_deliver_failed [of e2 w1 d2 o2] by simp
  then show ?thesis using first by (simp add: delete_previous_def)
qed

theorem failed_render_keeps_pointer_witness:
  "Render (Some sample_path) \<in> set (fst (handle_heyao_query sample_env sample_world (asc ''/heyao 42''))) \<and>
   Render None \<in> set (fst (handle_heyao_query save_fails_env after_first (asc ''/heyao 42''))) \<and>
   last_image_path after_second = Some sample_path \<and>
   disk after_second sample_path = (if unlink_ok save_fails_env then None else disk after_first sample_path)"
proof -
  have a: "handle_heyao_query sample_env sample_world (asc ''/heyao 42'') =
     (fst (handle_heyao_query sample_env sample_world (asc ''/heyao 42'')), after_first)"
    by (simp add: after_first_def)
  have b: "Render (Some sample_path) \<in> set (fst (handle_heyao_query sample_env sample_world (asc ''/heyao 42'')))"
    by (simp add: sample_first_run)
  have c: "handle_heyao_query save_fails_env after_first (asc ''/heyao 42'') =
     (fst (handle_heyao_query save_fails_env after_first (asc ''/heyao 42'')), after_second)"
    by (simp add: after_second_def)
  have d: "Render None \<in> set (fst (handle_heyao_query save_fails_env after_first (asc ''/heyao 42'')))"
    by (simp add: sample_second_run)
  show ?thesis using failed_render_keeps_pointer [OF a b c d] b d by simp
qed

text \<open>
  Claim C2 as stated fails: after a first invocation that renders and a second one whose
  rendering fails at the saving of the file, \<open>last_image_path\<close> refers to the first
  file and that file no longer exists.
\<close>

theorem failed_render_loses_previous_file:
  "Render (Some sample_path) \<in> set (fst (handle_heyao_query sample_env sample_world (asc ''/heyao 42''))) \<and>
   last_image_path after_first = Some sample_path \<and>
   disk after_first sample_path \<noteq> None \<and>
   Render None \<in> set (fst (handle_heyao_query save_fails_env after_first (asc ''/heyao 42''))) \<and>
   last_image_path after_second = Some sample_path \<and>
   disk after_second sample_path = None"
  by (simp add: after_second_def sample_second_run) (simp add: after_first_eq sample_first_run)

section \<open>File names, extracted details and the handoff\<close>

lemma render_and_deliver_trace:
  "Render (fst (generate_image e (snd (delete_previous e w)) d))
     \<in> set (fst (render_and_deliver e w order_id d))"
  by (simp add: render_and_deliver_def case_prod_beta)

text \<open>
  Claim C3. Two renderings of the batch number \<open>#A/B C\<close> within the same second, at
  different microseconds, are given the same file name: \<open>time.strftime\<close> formats a
  \<open>struct_time\<close>, which ends at the second, and leaves \<open>%f\<close> as it stands.
\<close>

theorem same_second_same_filename:
  "fst (generate_image sample_env sample_disk sample_details) = Some sample_path \<and>
   fst (generate_image later_env (snd (generate_image sample_env sample_disk sample_details))
          sample_details) = Some sample_path \<and>
   localtime (clock_name later_env) = localtime (clock_name sample_env) \<and>
   usec (clock_name later_env) \<noteq> usec (clock_name sample_env)"
proof -
  have g1: "generate_image sample_env sample_disk sample_details =
      (Some sample_path, sample_disk(sample_path \<mapsto> Png (rendered sample_env sample_disk sample_template sample_details)))"
    by (rule sample_generate) (simp_all add: sample_env_def sample_paths)
  have ne: "asc ''/p/hymb.png'' \<noteq> sample_path" by (simp add: sample_path_def asc_simps)
  have "generate_image later_env (snd (generate_image sample_env sample_disk sample_details)) sample_details =
      (Some sample_path, (snd (generate_image sample_env sample_disk sample_details))(sample_path \<mapsto>
          Png (rendered later_env (snd (generate_image sample_env sample_disk sample_details)) sample_template sample_details)))"
  proof (rule sample_generate)
    show "(snd (generate_image sample_env sample_disk sample_details)) (asc ''/p/hymb.png'') =
          Some (Png sample_template)"
      using ne by (simp add: g1 sample_paths)
  qed (simp_all add: later_env_def sample_env_def)
  then show ?thesis using g1 by (simp add: later_env_def sample_env_def)
qed

text \<open>
  Claim C7, amended. When \<open>queryDataList\<close> is a non-empty list whose first element is
  a dictionary with a non-empty dictionary as \<open>content\<close>, the extraction returns that
  dictionary unchanged, and it is that dictionary the handler gives to the renderer.
\<close>

theorem content_passes_to_renderer:
  assumes "split_max1 m = [cmd, arg]" "strip arg \<noteq> []"
      and "post e (strip arg) = Response 200 (Some (PDict d))"
      and "dict_get d (asc ''queryDataList'') PNone = PList (PDict first # rest)"
      and "dict_get first (asc ''content'') PNone = PDict details"
      and "details \<noteq> []"
  shows "extract_details (py_repr e) (strip arg) (PDict d) = Inr (PDict details) \<and>
     handle_heyao_query e w m =
       ([Plain (msg_searching (strip arg)), ApiCall (strip arg)] @
          fst (render_and_deliver e w (strip arg) details),
        snd (render_and_deliver e w (strip arg) details)) \<and>
     Render (fst (generate_image e (snd (delete_previous e w)) details))
       \<in> set (fst (handle_heyao_query e w m))"
proof -
  have x: "extract_details (py_repr e) (strip arg) (PDict d) = Inr (PDict details)"
    using assms(4,5,6) by (rule extract_content)
  have h: "handle_heyao_query e w m =
       ([Plain (msg_searching (strip arg)), ApiCall (strip arg)] @
          fst (render_and_deliver e w (strip arg) details),
        snd (render_and_deliver e w (strip arg) details))"
    using assms by (rule handle_rendered)
  show ?thesis using x h render_and_deliver_trace [of e w details "strip arg"] by simp
qed

theorem content_passes_to_renderer_witness:
  "split_max1 (asc ''/heyao 42'') = [asc ''/heyao'', asc ''42''] \<and>
   strip (asc ''42'') \<noteq> [] \<and>
   post sample_env (strip (asc ''42'')) = Response 200 (Some (PDict sample_response)) \<and>
   dict_get sample_response (asc ''queryDataList'') PNone =
     PList (PDict [(asc ''content'', PDict sample_details)] # []) \<and>
   dict_get [(asc ''content'', PDict sample_details)] (asc ''content'') PNone = PDict sample_details \<and>
   sample_details \<noteq> [] \<and>
   extract_details (py_repr sample_env) (strip (asc ''42'')) (PDict sample_response) =
     Inr (PDict sample_details)"
proof -
  have a: "strip (asc ''42'') \<noteq> []" unfolding strip_42 by (simp add: asc_simps)
  have b: "post sample_env (strip (asc ''42'')) = Response 200 (Some (PDict sample_response))"
    by (simp add: sample_env_def)
  show ?thesis
    using content_passes_to_renderer [OF split_heyao_42 a b sample_lookups(1,2,3), of sample_world]
      split_heyao_42 a b sample_lookups(1,2,3)
    by blast
qed

text \<open>
  Claim C7 as stated fails: an empty dictionary as \<open>content\<close> is not returned; the
  handler reports that the details could not be parsed.
\<close>

theorem empty_content_rejected:
  "extract_details (py_repr sample_env) (asc ''42'') (PDict empty_content_response) =
     Inl (msg_unparsed (asc ''42'')) \<and>
   extract_details (py_repr sample_env) (asc ''42'') (PDict empty_content_response) \<noteq>
     Inr (PDict []) \<and>
   handle_heyao_query (answering empty_content_response) sample_world (asc ''/heyao 42'') =
     ([Plain (msg_searching (asc ''42'')), ApiCall (asc ''42''), Plain (msg_unparsed (asc ''42''))],
      sample_world)"
proof -
  have x: "extract_details r (asc ''42'') (PDict empty_content_response) =
     Inl (msg_unparsed (asc ''42''))" for r
    by (simp add: extract_details_def extract_body_def empty_content_response_def dict_get_def
          asc_simps)
  have a: "strip (asc ''42'') \<noteq> []" unfolding strip_42 by (simp add: asc_simps)
  have b: "post (answering empty_content_response) (strip (asc ''42'')) =
     Response 200 (Some (PDict empty_content_response))"
    by (simp add: answering_def sample_env_def)
  show ?thesis
    using handle_fetched [OF split_heyao_42 a b, of sample_world] x by (simp add: strip_42)
qed

text \<open>
  Claim C8. When rendering succeeds, the assignment to \<open>last_image_path\<close> follows the
  rendering at once and precedes the handoff of the image; whatever happens at the
  handoff, \<open>last_image_path\<close> refers to the new file at the end and the file exists;
  when the packaging or the handoff raises, the text "generated but could not be sent" is
  yielded.
\<close>

theorem pointer_set_before_handoff:
  assumes "handle_heyao_query e w m = (t, w')" "Render (Some p) \<in> set t"
  shows "(\<exists>pre. t = pre @ [Render (Some p), SetPointer p] @
            (case handoff e of
               Delivered \<Rightarrow> [Chain p]
             | PackagingRaises \<Rightarrow> [Plain msg_send_problem]
             | YieldRaises \<Rightarrow> [Chain p, Plain msg_send_problem])) \<and>
         last_image_path w' = Some p \<and> disk w' p \<noteq> None"
proof -
  from handle_render [of "Some p" e w m] assms
  obtain o1 d1 where
    t: "t = [Plain (msg_searching o1), ApiCall o1] @ fst (render_and_deliver e w o1 d1)" and
    w': "w' = snd (render_and_deliver e w o1 d1)" and
    r1: "Render (Some p) \<in> set (fst (render_and_deliver e w o1 d1))"
    by auto
  from render_and_deliver_render [OF r1]
  obtain fs2 where gi: "generate_image e (snd (delete_previous e w)) d1 = (Some p, fs2)"
    by (cases "generate_image e (snd (delete_previous e w)) d1") simp
  have fs2: "fs2 p \<noteq> None" using gi generate_image_Some by blast
  let ?tail = "case handoff e of
               Delivered \<Rightarrow> [Chain p]
             | PackagingRaises \<Rightarrow> [Plain msg_send_problem]
             | YieldRaises \<Rightarrow> [Chain p, Plain msg_send_problem]"
  have "t = ([Plain (msg_searching o1), ApiCall o1] @ fst (delete_previous e w)) @
            [Render (Some p), SetPointer p] @ ?tail"
    using t render_and_deliver_succeeded [OF gi, of o1] by simp
  then have "\<exists>pre. t = pre @ [Render (Some p), SetPointer p] @ ?tail" by blast
  moreover have "w' = \<lparr>last_image_path = Some p, disk = fs2\<rparr>"
    using w' render_and_deliver_succeeded [OF gi, of o1] by simp
  ultimately show ?thesis using fs2 by simp
qed

lemma sample_run:
  assumes "mkdir_ok e" "save_ok e" "plugin_dir e = plugin_dir sample_env"
      and "localtime (clock_name e) = sample_time"
      and "post e (asc ''42'') = Response 200 (Some (PDict sample_response))"
  shows "handle_heyao_query e sample_world (asc ''/heyao 42'') =
     ([Plain (msg_searching (asc ''42'')), ApiCall (asc ''42''), Render (Some sample_path),
       SetPointer sample_path] @
        (case handoff e of
           Delivered \<Rightarrow> [Chain sample_path]
         | PackagingRaises \<Rightarrow> [Plain msg_send_problem]
         | YieldRaises \<Rightarrow> [Chain sample_path, Plain msg_send_problem]),
      \<lparr>last_image_path = Some sample_path,
       disk = sample_disk(sample_path \<mapsto> Png (rendered e sample_disk sample_template sample_details))\<rparr>)"
proof -
  have a: "strip (asc ''42'') \<noteq> []" unfolding strip_42 by (simp add: asc_simps)
  have b: "post e (strip (asc ''42'')) = Response 200 (Some (PDict sample_response))"
    using assms(5) by (simp only: strip_42)
  have dp: "delete_previous e sample_world = ([], sample_disk)"
    by (simp add: delete_previous_def sample_world_def)
  have gi: "generate_image e sample_disk sample_details =
      (Some sample_path, sample_disk(sample_path \<mapsto> Png (rendered e sample_disk sample_template sample_details)))"
    using assms(1,2,3,4) sample_paths(3) by (rule sample_generate)
  have "generate_image e (snd (delete_previous e sample_world)) sample_details =
      (Some sample_path, sample_disk(sample_path \<mapsto> Png (rendered e sample_disk sample_template sample_details)))"
    using gi dp by simp
  from render_and_deliver_succeeded [OF this, of "asc ''42''"]
  have "render_and_deliver e sample_world (asc ''42'') sample_details =
     ([Render (Some sample_path), SetPointer sample_path] @
        (case handoff e of
           Delivered \<Rightarrow> [Chain sample_path]
         | PackagingRaises \<Rightarrow> [Plain msg_send_problem]
         | YieldRaises \<Rightarrow> [Chain sample_path, Plain msg_send_problem]),
      \<lparr>last_image_path = Some sample_path,
       disk = sample_disk(sample_path \<mapsto> Png (rendered e sample_disk sample_template sample_details))\<rparr>)"
    using dp by simp
  then show ?thesis
    using handle_rendered [OF split_heyao_42 a b sample_lookups(1,2,3), of sample_world]
    by (simp add: strip_42)
qed

theorem pointer_set_before_handoff_witness:
  "Render (Some sample_path)
     \<in> set (fst (handle_heyao_query packaging_fails_env sample_world (asc ''/heyao 42''))) \<and>
   fst (handle_heyao_query packaging_fails_env sample_world (asc ''/heyao 42'')) =
     [Plain (msg_searching (asc ''42'')), ApiCall (asc ''42''), Render (Some sample_path),
      SetPointer sample_path, Plain msg_send_problem] \<and>
   last_image_path (snd (handle_heyao_query packaging_fails_env sample_world (asc ''/heyao 42''))) =
     Some sample_path \<and>
   disk (snd (handle_heyao_query packaging_fails_env sample_world (asc ''/heyao 42''))) sample_path
     \<noteq> None"
proof -
  let ?r = "handle_heyao_query packaging_fails_env sample_world (asc ''/heyao 42'')"
  have run: "fst ?r = [Plain (msg_searching (asc ''42'')), ApiCall (asc ''42''), Render (Some sample_path),
      SetPointer sample_path, Plain msg_send_problem]"
    by (subst sample_run) (simp_all add: packaging_fails_env_def sample_env_def)
  then have r: "Render (Some sample_path) \<in> set (fst ?r)" by simp
  have "?r = (fst ?r, snd ?r)" by simp
  from pointer_set_before_handoff [OF this r] run r show ?thesis by blast
qed

section \<open>Missing font and missing fields\<close>

lemma draw_all_None_exact:
  "draw_all e None img items =
     img\<lparr>img_texts := img_texts img @
        (if load_default_ok e then
           map (\<lambda>(tx, pos, n). (py_str (py_repr e) tx, pos, DefaultFont))
             (filter (\<lambda>(tx, pos, n). draw_ok e (py_str (py_repr e) tx)) items)
         else [])\<rparr>"
proof (induction e "None :: ustring option" img items rule: draw_all.induct)
  case (1 e img)
  then show ?case by simp
next
  case (2 e img tx position font_size rest)
  show ?case
  proof (cases "load_default_ok e")
    case False
    then show ?thesis using 2(1) by (simp add: load_font_None)
  next
    case True
    then have lf: "load_font e None font_size = Some DefaultFont"
      by (simp add: load_font_None)
    show ?thesis using 2(2) [OF lf] lf True by (simp add: draw_text_def)
  qed
qed

lemma draw_timestamp_None_exact:
  "draw_timestamp e None img =
     img\<lparr>img_texts := img_texts img @
        (if load_default_ok e \<and> draw_ok e (time_strftime (asc ''%Y-%m-%d %H:%M:%S'') (clock_stamp e))
         then [(time_strftime (asc ''%Y-%m-%d %H:%M:%S'') (clock_stamp e), (1210, 2680), DefaultFont)]
         else [])\<rparr>"
  by (simp add: draw_timestamp_def load_font_None draw_text_def Let_def)

lemma rendered_font_missing:
  assumes "fs (resource_path e (asc ''FZSTK.TTF'')) = None"
  shows "rendered e fs template data =
     template\<lparr>img_texts := img_texts template @
        (if load_default_ok e then
           map (\<lambda>(tx, pos, n). (py_str (py_repr e) tx, pos, DefaultFont))
             (filter (\<lambda>(tx, pos, n). draw_ok e (py_str (py_repr e) tx)) (content_map data)) @
           (if draw_ok e (time_strftime (asc ''%Y-%m-%d %H:%M:%S'') (clock_stamp e))
            then [(time_strftime (asc ''%Y-%m-%d %H:%M:%S'') (clock_stamp e), (1210, 2680), DefaultFont)]
            else [])
         else [])\<rparr>"
proof -
  have "rendered e fs template data =
        draw_timestamp e None (draw_all e None template (content_map data))"
    using assms by (simp add: rendered_def)
  then show ?thesis
    by (simp only: draw_timestamp_None_exact draw_all_None_exact) simp
qed


lemma sample_stamp:
  "time_strftime (asc ''%Y-%m-%d %H:%M:%S'') (clock_stamp sample_env) = asc ''2025-01-02 03:04:05''"
  by (simp add: time_strftime_def sample_env_def sample_time_def directive_def zero_pad_def
        digits.simps asc_simps)

lemma sample_content_map:
  "content_map sample_details =
     [(PStr (asc ''#A/B C''), (1490, 1030), 80), (PStr (asc ''N/A''), (1450, 1300), 80),
      (PStr (asc ''42''), (1100, 1570), 80), (PStr (asc ''N/A''), (1440, 1850), 80),
      (PStr (asc ''N/A''), (1000, 2110), 80), (PStr (asc ''N/A''), (1440, 2380), 80)]"
  by (simp add: content_map_def sample_details_def dict_get_def asc_simps)

lemma sample_img_path:
  "resource_path sample_env (asc ''temp_images'') @ asc ''/'' @
     img_filename (asc ''#A/B C'') (clock_name sample_env) = sample_path"
proof -
  have "clock_name sample_env = \<lparr>localtime = sample_time, usec = 250000\<rparr>"
    by (simp add: sample_env_def)
  then show ?thesis by (simp only: sample_filename sample_paths)
qed


text \<open>
  Claim C9. When the font file does not exist and the rest of the rendering works (the
  directory, the template, a batch number that is a string, the saving), the renderer
  returns the path of the new file in \<open>temp_images\<close> and saves there the template with
  the texts added in the default font: the six fields in the order of \<open>content_map\<close>
  and then the time stamp, each one unless its drawing call raises, and none when the
  default font cannot be loaded. The size of the saved image is that of the template, and
  when the default font loads and no drawing call raises all seven texts are on it.
\<close>

theorem missing_font_still_renders:
  assumes "fs (resource_path e (asc ''FZSTK.TTF'')) = None"
      and "mkdir_ok e" "save_ok e"
      and "fs (resource_path e (asc ''hymb.png'')) = Some (Png template)"
      and "dict_get data (asc ''v0'') (PStr (asc ''N/A'')) = PStr b"
  shows "generate_image e fs data =
      (Some (resource_path e (asc ''temp_images'') @ asc ''/'' @ img_filename b (clock_name e)),
       fs(resource_path e (asc ''temp_images'') @ asc ''/'' @ img_filename b (clock_name e) \<mapsto>
          Png (template\<lparr>img_texts := img_texts template @
            (if load_default_ok e then
               map (\<lambda>(tx, pos, n). (py_str (py_repr e) tx, pos, DefaultFont))
                 (filter (\<lambda>(tx, pos, n). draw_ok e (py_str (py_repr e) tx)) (content_map data)) @
               (if draw_ok e (time_strftime (asc ''%Y-%m-%d %H:%M:%S'') (clock_stamp e))
                then [(time_strftime (asc ''%Y-%m-%d %H:%M:%S'') (clock_stamp e), (1210, 2680),
                       DefaultFont)]
                else [])
             else [])\<rparr>))) \<and>
     (\<exists>img. snd (generate_image e fs data)
               (resource_path e (asc ''temp_images'') @ asc ''/'' @ img_filename b (clock_name e)) =
             Some (Png img) \<and>
            img_size img = img_size template \<and>
            (load_default_ok e \<and> (\<forall>s. draw_ok e s) \<longrightarrow>
               img_texts img = img_texts template @
                 map (\<lambda>(tx, pos, n). (py_str (py_repr e) tx, pos, DefaultFont)) (content_map data) @
                 [(time_strftime (asc ''%Y-%m-%d %H:%M:%S'') (clock_stamp e), (1210, 2680),
                   DefaultFont)]))"
proof -
  have g: "generate_image e fs data =
      (Some (resource_path e (asc ''temp_images'') @ asc ''/'' @ img_filename b (clock_name e)),
       fs(resource_path e (asc ''temp_images'') @ asc ''/'' @ img_filename b (clock_name e) \<mapsto>
          Png (rendered e fs template data)))"
    using generate_image_success [of e fs template data b, OF assms(2,4,5,3)] .
  have all_ok: "filter (\<lambda>(tx, pos, n). draw_ok e (py_str (py_repr e) tx)) (content_map data) =
      content_map data" if "\<forall>s. draw_ok e s"
    using that by simp
  show ?thesis
    unfolding g rendered_font_missing [of fs e template data, OF assms(1)]
    using all_ok by simp
qed



theorem missing_font_still_renders_witness:
  "sample_disk (resource_path sample_env (asc ''FZSTK.TTF'')) = None \<and>
   mkdir_ok sample_env \<and> save_ok sample_env \<and>
   sample_disk (resource_path sample_env (asc ''hymb.png'')) = Some (Png sample_template) \<and>
   dict_get sample_details (asc ''v0'') (PStr (asc ''N/A'')) = PStr (asc ''#A/B C'') \<and>
   generate_image sample_env sample_disk sample_details =
     (Some sample_path,
      sample_disk(sample_path \<mapsto> Png \<lparr>img_size = (2480, 3508), img_texts =
        [(asc ''#A/B C'', (1490, 1030), DefaultFont), (asc ''N/A'', (1450, 1300), DefaultFont),
         (asc ''42'', (1100, 1570), DefaultFont), (asc ''N/A'', (1440, 1850), DefaultFont),
         (asc ''N/A'', (1000, 2110), DefaultFont), (asc ''N/A'', (1440, 2380), DefaultFont),
         (asc ''2025-01-02 03:04:05'', (1210, 2680), DefaultFont)]\<rparr>))"
proof -
  have a: "sample_disk (resource_path sample_env (asc ''FZSTK.TTF'')) = None"
    by (simp add: resource_path_def sample_env_def sample_disk_def asc_simps)
  have b: "mkdir_ok sample_env" "save_ok sample_env" by (simp_all add: sample_env_def)
  have c: "sample_disk (resource_path sample_env (asc ''hymb.png'')) = Some (Png sample_template)"
    by (simp only: sample_paths)
  have o: "load_default_ok sample_env" "draw_ok sample_env s" "py_repr sample_env v = asc ''?''"
    for s v by (simp_all add: sample_env_def)
  from missing_font_still_renders
         [of sample_disk sample_env sample_template sample_details "asc ''#A/B C''",
          OF a b c sample_lookups(4)]
  have "generate_image sample_env sample_disk sample_details =
     (Some sample_path,
      sample_disk(sample_path \<mapsto> Png (sample_template\<lparr>img_texts := img_texts sample_template @
          map (\<lambda>(tx, pos, n). (py_str (py_repr sample_env) tx, pos, DefaultFont))
            (content_map sample_details) @
          [(asc ''2025-01-02 03:04:05'', (1210, 2680), DefaultFont)]\<rparr>)))"
    unfolding sample_img_path sample_stamp by (simp add: o)
  then have "generate_image sample_env sample_disk sample_details =
     (Some sample_path,
      sample_disk(sample_path \<mapsto> Png \<lparr>img_size = (2480, 3508), img_texts =
        [(asc ''#A/B C'', (1490, 1030), DefaultFont), (asc ''N/A'', (1450, 1300), DefaultFont),
         (asc ''42'', (1100, 1570), DefaultFont), (asc ''N/A'', (1440, 1850), DefaultFont),
         (asc ''N/A'', (1000, 2110), DefaultFont), (asc ''N/A'', (1440, 2380), DefaultFont),
         (asc ''2025-01-02 03:04:05'', (1210, 2680), DefaultFont)]\<rparr>))"
    by (simp add: sample_content_map sample_template_def)
  then show ?thesis using a b c sample_lookups(4) by blast
qed


lemma content_map_missing:
  assumes "(k, pos) \<in> set [(asc ''v0'', (1490, 1030)), (asc ''v1'', (1450, 1300)),
             (asc ''v2'', (1100, 1570)), (asc ''v3'', (1440, 1850)),
             (asc ''v4'', (1000, 2110)), (asc ''v5'', (1440, 2380))]"
      and "map_of data k = None"
  shows "(PStr (asc ''N/A''), pos, 80) \<in> set (content_map data)"
proof -
  have d: "dict_get data k (PStr (asc ''N/A'')) = PStr (asc ''N/A'')"
    using assms(2) by (simp add: dict_get_def)
  have "(dict_get data k (PStr (asc ''N/A'')), pos, 80) \<in> set (content_map data)"
    using assms(1) unfolding content_map_def by auto
  then show ?thesis by (simp only: d)
qed


text \<open>
  Claim C10. When one of the keys \<open>v0\<close> to \<open>v5\<close> is absent, the renderer still
  returns a path, and the saved image has the text \<open>N/A\<close> at the position of that
  field; no key is needed.
\<close>

theorem missing_fields_drawn_as_placeholder:
  assumes "mkdir_ok e" "save_ok e" "load_default_ok e" "draw_ok e (asc ''N/A'')"
      and "fs (resource_path e (asc ''hymb.png'')) = Some (Png template)"
      and "map_of data (asc ''v0'') = None \<or> (\<exists>b. map_of data (asc ''v0'') = Some (PStr b))"
      and "(k, pos) \<in> set [(asc ''v0'', (1490, 1030)), (asc ''v1'', (1450, 1300)),
             (asc ''v2'', (1100, 1570)), (asc ''v3'', (1440, 1850)),
             (asc ''v4'', (1000, 2110)), (asc ''v5'', (1440, 2380))]"
      and "map_of data k = None"
  shows "\<exists>p img f. generate_image e fs data = (Some p, fs(p \<mapsto> Png img)) \<and>
           (asc ''N/A'', pos, f) \<in> set (img_texts img)"
proof -
  obtain b where b: "dict_get data (asc ''v0'') (PStr (asc ''N/A'')) = PStr b"
    using assms(6) by (auto simp: dict_get_def)
  let ?fp = "if fs (resource_path e (asc ''FZSTK.TTF'')) = None then None
             else Some (resource_path e (asc ''FZSTK.TTF''))"
  obtain f where f: "load_font e ?fp 80 = Some f"
    using load_font_default_ok [OF assms(3)] by blast
  have mem: "(PStr (asc ''N/A''), pos, 80) \<in> set (content_map data)"
    using assms(7,8) by (rule content_map_missing)
  have dk: "draw_ok e (py_str (py_repr e) (PStr (asc ''N/A'')))"
    using assms(4) by simp
  have "(py_str (py_repr e) (PStr (asc ''N/A'')), pos, f)
      \<in> set (img_texts (draw_all e ?fp template (content_map data)))"
    using mem f dk by (rule draw_all_mem)
  then have "(asc ''N/A'', pos, f) \<in> set (img_texts (draw_all e ?fp template (content_map data)))"
    by simp
  then have "(asc ''N/A'', pos, f)
      \<in> set (img_texts (draw_timestamp e ?fp (draw_all e ?fp template (content_map data))))"
    using draw_timestamp_mono [of "draw_all e ?fp template (content_map data)" e ?fp]
    by blast
  then have "(asc ''N/A'', pos, f) \<in> set (img_texts (rendered e fs template data))"
    unfolding rendered_def Let_def .
  with generate_image_success [of e fs template data b, OF assms(1,5) b assms(2)]
  show ?thesis by blast
qed


theorem missing_fields_drawn_as_placeholder_witness:
  "mkdir_ok sample_env \<and> save_ok sample_env \<and> load_default_ok sample_env \<and>
   draw_ok sample_env (asc ''N/A'') \<and>
   sample_disk (resource_path sample_env (asc ''hymb.png'')) = Some (Png sample_template) \<and>
   map_of sample_details (asc ''v0'') = Some (PStr (asc ''#A/B C'')) \<and>
   map_of sample_details (asc ''v1'') = None \<and>
   (\<exists>p img f. generate_image sample_env sample_disk sample_details =
                  (Some p, sample_disk(p \<mapsto> Png img)) \<and>
      (asc ''N/A'', (1450, 1300), f) \<in> set (img_texts img))"
proof -
  have a: "mkdir_ok sample_env" "save_ok sample_env" "load_default_ok sample_env"
    "draw_ok sample_env (asc ''N/A'')"
    by (simp_all add: sample_env_def)
  have c: "sample_disk (resource_path sample_env (asc ''hymb.png'')) = Some (Png sample_template)"
    by (simp only: sample_paths)
  have v0: "map_of sample_details (asc ''v0'') = Some (PStr (asc ''#A/B C''))"
    and v1: "map_of sample_details (asc ''v1'') = None"
    by (simp_all add: sample_details_def asc_simps)
  have d: "map_of sample_details (asc ''v0'') = None \<or>
           (\<exists>b. map_of sample_details (asc ''v0'') = Some (PStr b))"
    using v0 by blast
  have m: "(asc ''v1'', (1450 :: nat, 1300 :: nat)) \<in> set [(asc ''v0'', (1490, 1030)), (asc ''v1'', (1450, 1300)),
             (asc ''v2'', (1100, 1570)), (asc ''v3'', (1440, 1850)),
             (asc ''v4'', (1000, 2110)), (asc ''v5'', (1440, 2380))]"
    by simp
  from missing_fields_drawn_as_placeholder
         [of sample_env sample_disk sample_template sample_details "asc ''v1''" "(1450, 1300)",
          OF a c d m v1] a c v0 v1
  show ?thesis by blast
qed

end
